theory Spec2Isabelle
  imports Main "HOL-Library.AList"
begin

section \<open>Project provisioning against a remote cluster (server/openshift/project.go)\<close>

subsection \<open>Errors\<close>

text \<open>
  Every error of project.go is built with \<open>errors.New(msg)\<close>; the caller sees the
  message through \<open>err.Error()\<close>. A function returning \<open>error\<close> returns
  \<open>error option\<close> (\<open>None\<close> is Go's \<open>nil\<close>); a function returning \<open>(v, error)\<close>
  returns \<open>failure + v\<close>, where a failed type assertion \<open>x.(string)\<close> is the
  branch \<open>Panic\<close>.
\<close>

text \<open>
  Modelled from the spec: the cluster lookup is not in project.go. Its contract is
  \<open>resolve(clusterId) -> (HTTPClient, baseURL) | NotFoundError\<close>: its error is of a
  kind of its own, \<open>NotFoundError\<close>, with its message. \<open>New\<close> is the error of
  \<open>errors.New\<close>, the only one that project.go builds.
\<close>

datatype error = New string | NotFoundError string

fun Error :: "error \<Rightarrow> string" where
  "Error (New msg) = msg"
| "Error (NotFoundError msg) = msg"

datatype failure = Err error | Panic

subsection \<open>What is declared outside project.go\<close>

text \<open>
  \<open>genericAPIError\<close>, \<open>wrongAPIUsageError\<close> and \<open>testProjectDeletionDays\<close> are
  constants of the package whose declarations are in another file; they are taken as
  parameters. \<open>testProjectDeletionDays\<close> is stored as an annotation value and printed
  with \<open>%v\<close>; it is taken as a string (annotation values are strings), so that \<open>%v\<close>
  prints it as it is. \<open>clusterUnknownError\<close> is the message of the error of the cluster
  lookup, which is not in project.go either.

  \<open>ToLower\<close> and \<open>ToUpper\<close> are \<open>strings.ToLower\<close> and \<open>strings.ToUpper\<close> of
  Go's library, which map every letter of Unicode. They are taken as parameters as well,
  so that what is proved of a name holds of every name, whatever its letters.
\<close>

record constants =
  genericAPIError :: string
  wrongAPIUsageError :: string
  testProjectDeletionDays :: string
  clusterUnknownError :: string
  ToLower :: "string \<Rightarrow> string"
  ToUpper :: "string \<Rightarrow> string"

subsection \<open>Strings\<close>

text \<open>
  On a string of ASCII characters, \<open>strings.ToLower\<close> maps the letters \<open>A\<close> to
  \<open>Z\<close> to \<open>a\<close> to \<open>z\<close> and keeps every other character, and
  \<open>strings.ToUpper\<close> does the converse. The concrete runs below, whose names are
  made of ASCII characters, take these two functions for \<open>ToLower\<close> and
  \<open>ToUpper\<close>.
\<close>

definition toLowerChar :: "char \<Rightarrow> char" where
  "toLowerChar c =
     (case map_of (zip ''ABCDEFGHIJKLMNOPQRSTUVWXYZ'' ''abcdefghijklmnopqrstuvwxyz'') c of
        None \<Rightarrow> c
      | Some d \<Rightarrow> d)"

definition toUpperChar :: "char \<Rightarrow> char" where
  "toUpperChar c =
     (case map_of (zip ''abcdefghijklmnopqrstuvwxyz'' ''ABCDEFGHIJKLMNOPQRSTUVWXYZ'') c of
        None \<Rightarrow> c
      | Some d \<Rightarrow> d)"

definition asciiToLower :: "string \<Rightarrow> string" where
  "asciiToLower s = map toLowerChar s"

definition asciiToUpper :: "string \<Rightarrow> string" where
  "asciiToUpper s = map toUpperChar s"

subsection \<open>JSON documents and the gabs container operations\<close>

text \<open>
  A document as the code has it, decoded (\<open>interface{}\<close> after \<open>json.Unmarshal\<close>):
  \<open>nil\<close> is \<open>JNull\<close>, a \<open>map[string]interface{}\<close> is an association list read
  with \<open>map_of\<close> and written with \<open>AList.update\<close>, a \<open>[]interface{}\<close> is a list.
  A number is the \<open>float64\<close> that the decoder made of the digits it read, not the
  digits: the code never sees the number the cluster wrote, and writes back the
  \<open>float64\<close>. No operation of project.go computes with a number, so the type is left
  without structure.

  The containers are those of the library \<open>github.com/Jeffail/gabs\<close>, which project.go
  imports. Its releases differ in two corners: \<open>Set\<close> on the container that a search
  for a missing member returns (a container holding \<open>nil\<close>, modelled here, or a
  \<open>nil\<close> container), and \<open>ArrayAppend\<close> at a path that holds no array (an error,
  modelled here, or a new array). The properties below are stated for documents that
  have an object at \<open>metadata.annotations\<close> and a list at \<open>userNames\<close>, and one
  run has a document whose \<open>metadata.annotations\<close> is there and is \<open>null\<close>; on
  these the releases agree.
\<close>

typedecl float64

datatype json =
    JNull
  | JBool bool
  | JNumber float64
  | JString string
  | JArray "json list"
  | JObject "(string \<times> json) list"

text \<open>
  \<open>Container.Search(hierarchy...).Data()\<close>: follows the keys through objects; at an
  array it searches every element and collects the results that are not \<open>nil\<close>; a
  missing key or a scalar on the way gives \<open>nil\<close>.
\<close>

fun Search :: "json \<Rightarrow> string list \<Rightarrow> json" where
  "Search j [] = j"
| "Search (JObject al) (h # hs) =
     (case map_of al h of None \<Rightarrow> JNull | Some v \<Rightarrow> Search v hs)"
| "Search (JArray xs) (h # hs) =
     (let rs = filter (\<lambda>r. r \<noteq> JNull) (map (\<lambda>v. Search v (h # hs)) xs)
      in if rs = [] then JNull else JArray rs)"
| "Search j (h # hs) = JNull"

text \<open>
  \<open>Container.Set(value, path...)\<close> on the container itself, as the new content of the
  container: a \<open>nil\<close> container becomes a fresh object, missing and \<open>nil\<close> members on
  the way become fresh objects, and a member that is not an object is a path collision,
  which changes nothing (the callers drop the error).
\<close>

fun Set :: "json \<Rightarrow> string list \<Rightarrow> json \<Rightarrow> json" where
  "Set v [] g = v"
| "Set v (h # hs) JNull = JObject [(h, Set v hs JNull)]"
| "Set v (h # hs) (JObject al) =
     (if hs = [] then JObject (AList.update h v al)
      else case map_of al h of
             None \<Rightarrow> JObject (AList.update h (Set v hs JNull) al)
           | Some c \<Rightarrow> JObject (AList.update h (Set v hs c) al))"
| "Set v (h # hs) g = g"

text \<open>
  A container obtained with \<open>doc.Path(p)\<close> shares the object it points to with the
  document (Go maps are references), so \<open>Set\<close> on it changes the document in place.
  \<open>updateAt p f doc\<close> is the document after the member reached by \<open>p\<close> through objects
  has been changed by \<open>f\<close>. A container that holds \<open>nil\<close>, a scalar, or the fresh
  array that \<open>Search\<close> builds when it crosses an array shares nothing with the document:
  \<open>Set\<close> on it leaves the document as it was.
\<close>

fun updateAt :: "string list \<Rightarrow> (json \<Rightarrow> json) \<Rightarrow> json \<Rightarrow> json" where
  "updateAt [] f j = f j"
| "updateAt (h # hs) f (JObject al) =
     (case map_of al h of
        None \<Rightarrow> JObject al
      | Some v \<Rightarrow> JObject (AList.update h (updateAt hs f v) al))"
| "updateAt (h # hs) f j = j"

definition SetVia :: "string list \<Rightarrow> json \<Rightarrow> string \<Rightarrow> json \<Rightarrow> json" where
  "SetVia p v key doc =
     updateAt p (\<lambda>c. case c of JObject al \<Rightarrow> Set v [key] c | _ \<Rightarrow> c) doc"

text \<open>
  \<open>Container.ArrayAppend(value, path...)\<close>: the array found at the path, with the value
  appended, is set at the path. Where the path holds no array, the document is left as
  it was (\<open>ErrNotArray\<close>, dropped by the caller).
\<close>

definition ArrayAppend :: "json \<Rightarrow> string list \<Rightarrow> json \<Rightarrow> json" where
  "ArrayAppend v p g =
     (case Search g p of JArray xs \<Rightarrow> Set (JArray (xs @ [v])) p g | _ \<Rightarrow> g)"

text \<open>
  \<open>Container.Children()\<close>: the elements of an array, the values of an object (Go gives
  them in no fixed order; the model gives them in the order of the association list),
  an error (\<open>None\<close>) for anything else.
\<close>

fun Children :: "json \<Rightarrow> json list option" where
  "Children (JArray xs) = Some xs"
| "Children (JObject al) = Some (map snd al)"
| "Children j = None"

subsection \<open>Validation\<close>

definition validateNewProject :: "string \<Rightarrow> string \<Rightarrow> bool \<Rightarrow> error option" where
  "validateNewProject project billing testProject =
     (if length project = 0 then Some (New ''Project name has to be provided'')
      else if \<not> testProject \<and> length billing = 0
        then Some (New ''Accounting number must be provided'')
      else None)"

subsection \<open>The cluster, as the code sees it\<close>

text \<open>
  A request names its method, the cluster, the path below the cluster's base URL and the
  document sent. A response has its status code and its body; \<open>Body = None\<close> is a
  body that \<open>gabs.ParseJSONBuffer\<close> rejects, \<open>Some j\<close> one that it decodes to
  \<open>j\<close>. The body of a request is the document that \<open>Bytes()\<close> encodes: the
  encoder writes an object with its members, whatever their order, and a \<open>float64\<close>
  with the shortest digits that decode to it again, so the document is what a decoder
  reads from the bytes sent.
\<close>

record request =
  req_method :: string
  req_cluster :: string
  req_path :: string
  req_body :: "json option"

record response =
  StatusCode :: int
  Body :: "json option"

text \<open>
  The plugin: the configured cluster identifiers; the transport, which answers a request
  from the state \<open>'s\<close> of the world outside (no answer, \<open>None\<close>, is a transport
  error); and \<open>checkAdminPermissions\<close>, a method of the plugin defined in another
  file, taken as a parameter. The state threaded through every operation is the state of
  the world together with the exchanges on the wire so far, oldest first: each request
  with the answer it got.
\<close>

type_synonym exchange = "request \<times> response option"

record 's Plugin =
  clusters :: "string list"
  transport :: "request \<Rightarrow> 's \<Rightarrow> response option \<times> 's"
  checkAdminPermissions ::
    "string \<Rightarrow> string \<Rightarrow> string \<Rightarrow> 's \<times> exchange list \<Rightarrow> error option \<times> ('s \<times> exchange list)"

type_synonym 's io = "'s \<times> exchange list"

definition send :: "'s Plugin \<Rightarrow> request \<Rightarrow> 's io \<Rightarrow> response option \<times> 's io" where
  "send p rq io =
     (case io of (s, wire) \<Rightarrow>
        (case transport p rq s of (r, s') \<Rightarrow> (r, (s', wire @ [(rq, r)]))))"

text \<open>
  Modelled from the spec: \<open>getOseHTTPClient\<close> is a method of the plugin that is not in
  project.go. The cluster client resolver "fails with a cluster unknown error when
  clusterId does not match any configured cluster", with no side effects; otherwise the
  request is issued, and a transport error is logged and "collapsed to one generic
  user-facing message", never returned as it is.
\<close>

definition getOseHTTPClient ::
  "'s Plugin \<Rightarrow> constants \<Rightarrow> string \<Rightarrow> string \<Rightarrow> string \<Rightarrow> json option \<Rightarrow> 's io
     \<Rightarrow> (error + response) \<times> 's io" where
  "getOseHTTPClient p k method clusterId endURL body io =
     (if clusterId \<notin> set (clusters p)
      then (Inl (NotFoundError (clusterUnknownError k)), io)
      else case send p \<lparr>req_method = method, req_cluster = clusterId,
                        req_path = endURL, req_body = body\<rparr> io of
             (None, io1) \<Rightarrow> (Inl (New (genericAPIError k)), io1)
           | (Some resp, io1) \<Rightarrow> (Inr resp, io1))"

text \<open>
  Modelled from the spec: \<open>newObjectRequest\<close> is not in project.go. The body of the
  creation request is \<open>{kind: "ProjectRequest", metadata: {name}}\<close>.
\<close>

definition newObjectRequest :: "string \<Rightarrow> string \<Rightarrow> json" where
  "newObjectRequest kind name =
     JObject [(''kind'', JString kind), (''metadata'', JObject [(''name'', JString name)])]"

text \<open>
  Modelled from the spec: \<open>getAdminRoleBinding\<close> is not in project.go. It GETs the
  role-binding document for \<open>{project}/rolebindings/admin\<close>; "any non-200 on the GET"
  and a document that does not decode surface the generic error.
\<close>

definition getAdminRoleBinding ::
  "'s Plugin \<Rightarrow> constants \<Rightarrow> string \<Rightarrow> string \<Rightarrow> 's io \<Rightarrow> (error + json) \<times> 's io" where
  "getAdminRoleBinding p k clusterId project io =
     (case getOseHTTPClient p k ''GET'' clusterId
             (''oapi/v1/namespaces/'' @ project @ ''/rolebindings/admin'') None io of
        (Inl err, io1) \<Rightarrow> (Inl err, io1)
      | (Inr resp, io1) \<Rightarrow>
          if StatusCode resp \<noteq> 200 then (Inl (New (genericAPIError k)), io1)
          else (case Body resp of
                  None \<Rightarrow> (Inl (New (genericAPIError k)), io1)
                | Some json \<Rightarrow> (Inr json, io1)))"

subsection \<open>Granting admin rights\<close>

definition changeProjectPermission ::
  "'s Plugin \<Rightarrow> constants \<Rightarrow> string \<Rightarrow> string \<Rightarrow> string \<Rightarrow> 's io \<Rightarrow> error option \<times> 's io" where
  "changeProjectPermission p k clusterId project username io =
     (case getAdminRoleBinding p k clusterId project io of
        (Inl err, io1) \<Rightarrow> (Some err, io1)
      | (Inr adminRoleBinding, io1) \<Rightarrow>
          (let b1 = ArrayAppend (JString (ToLower k username)) [''userNames''] adminRoleBinding;
               b2 = ArrayAppend (JString (ToUpper k username)) [''userNames''] b1
           in case getOseHTTPClient p k ''PUT'' clusterId
                     (''oapi/v1/namespaces/'' @ project @ ''/rolebindings/admin'') (Some b2) io1 of
                (Inl err, io2) \<Rightarrow> (Some err, io2)
              | (Inr resp, io2) \<Rightarrow>
                  if StatusCode resp = 200 then (None, io2)
                  else (Some (New (genericAPIError k)), io2)))"

subsection \<open>Project metadata\<close>

record ProjectInformation =
  Kontierungsnummer :: string
  MegaID :: string

abbreviation annotationsPath :: "string list" where
  "annotationsPath \<equiv> [''metadata'', ''annotations'']"

definition descriptionText :: "string \<Rightarrow> string" where
  "descriptionText days =
     ''Dieses Testprojekt wird in '' @ days @ '' Tagen automatisch gel''
       @ [CHR 0xC3, CHR 0xB6] @ ''scht!''"

definition getProjectInformation ::
  "'s Plugin \<Rightarrow> constants \<Rightarrow> string \<Rightarrow> string \<Rightarrow> 's io
     \<Rightarrow> (failure + ProjectInformation) \<times> 's io" where
  "getProjectInformation p k clusterId project io =
     (case getOseHTTPClient p k ''GET'' clusterId (''api/v1/namespaces/'' @ project) None io of
        (Inl err, io1) \<Rightarrow> (Inl (Err err), io1)
      | (Inr resp, io1) \<Rightarrow>
          (case Body resp of
             None \<Rightarrow> (Inl (Err (New (genericAPIError k))), io1)
           | Some json \<Rightarrow>
               (let billing0 = Search (Search json annotationsPath)
                                 [''openshift.io/kontierung-element''];
                    billing = (if billing0 = JNull then JString [] else billing0);
                    megaid0 = Search (Search json annotationsPath) [''openshift.io/MEGAID''];
                    megaid = (if megaid0 = JNull then JString [] else megaid0)
                in case (billing, megaid) of
                     (JString b, JString m) \<Rightarrow>
                       (Inr \<lparr>Kontierungsnummer = b, MegaID = m\<rparr>, io1)
                   | _ \<Rightarrow> (Inl Panic, io1))))"

definition createOrUpdateMetadata ::
  "'s Plugin \<Rightarrow> constants \<Rightarrow> string \<Rightarrow> string \<Rightarrow> string \<Rightarrow> string \<Rightarrow> string \<Rightarrow> bool \<Rightarrow> 's io
     \<Rightarrow> error option \<times> 's io" where
  "createOrUpdateMetadata p k clusterId project billing megaid username testProject io =
     (case getOseHTTPClient p k ''GET'' clusterId (''api/v1/namespaces/'' @ project) None io of
        (Inl err, io1) \<Rightarrow> (Some err, io1)
      | (Inr resp, io1) \<Rightarrow>
          (case Body resp of
             None \<Rightarrow> (Some (New (genericAPIError k)), io1)
           | Some json \<Rightarrow>
               (let j1 = SetVia annotationsPath (JString billing)
                           ''openshift.io/kontierung-element'' json;
                    j2 = SetVia annotationsPath (JString username) ''openshift.io/requester'' j1;
                    j3 = (if testProject
                          then SetVia annotationsPath
                                 (JString (descriptionText (testProjectDeletionDays k)))
                                 ''openshift.io/description''
                                 (SetVia annotationsPath (JString (testProjectDeletionDays k))
                                    ''openshift.io/testproject-daystodeletion'' j2)
                          else j2);
                    j4 = (if length megaid > 0
                          then SetVia annotationsPath (JString megaid) ''openshift.io/MEGAID'' j3
                          else j3)
                in case getOseHTTPClient p k ''PUT'' clusterId
                          (''api/v1/namespaces/'' @ project) (Some j4) io1 of
                     (Inl err, io2) \<Rightarrow> (Some err, io2)
                   | (Inr resp2, io2) \<Rightarrow>
                       if StatusCode resp2 = 200 then (None, io2)
                       else (Some (New (genericAPIError k)), io2))))"

subsection \<open>Creating a project\<close>

definition createNewProject ::
  "'s Plugin \<Rightarrow> constants \<Rightarrow> string \<Rightarrow> string \<Rightarrow> string \<Rightarrow> string \<Rightarrow> string \<Rightarrow> bool \<Rightarrow> 's io
     \<Rightarrow> error option \<times> 's io" where
  "createNewProject p k clusterId project0 username billing megaid testProject io =
     (let project = ToLower k project0;
          projectObject = newObjectRequest ''ProjectRequest'' project
      in case getOseHTTPClient p k ''POST'' clusterId ''oapi/v1/projectrequests''
                (Some projectObject) io of
           (Inl err, io1) \<Rightarrow> (Some err, io1)
         | (Inr resp, io1) \<Rightarrow>
             if StatusCode resp = 201 then
               (case changeProjectPermission p k clusterId project username io1 of
                  (Some err, io2) \<Rightarrow> (Some err, io2)
                | (None, io2) \<Rightarrow>
                    (case createOrUpdateMetadata p k clusterId project billing megaid
                            username testProject io2 of
                       (Some err, io3) \<Rightarrow> (Some err, io3)
                     | (None, io3) \<Rightarrow> (None, io3)))
             else if StatusCode resp = 409
               then (Some (New ''The project already exists''), io1)
             else (Some (New (genericAPIError k)), io1))"

subsection \<open>Listing projects\<close>

text \<open>The loop of \<open>getUserProjects\<close> over the items, with the names found so far.\<close>

fun projectNames :: "json list \<Rightarrow> string list \<Rightarrow> failure + string list" where
  "projectNames [] names = Inr names"
| "projectNames (project # projects) names =
     (case Search project [''metadata'', ''name''] of
        JString name \<Rightarrow> projectNames projects (names @ [name])
      | _ \<Rightarrow> Inl Panic)"

definition getUserProjects ::
  "'s Plugin \<Rightarrow> constants \<Rightarrow> string \<Rightarrow> string \<Rightarrow> 's io \<Rightarrow> (failure + string list) \<times> 's io" where
  "getUserProjects p k clusterid username io =
     (case getOseHTTPClient p k ''GET'' clusterid ''oapi/v1/projects'' None io of
        (Inl err, io1) \<Rightarrow> (Inl (Err err), io1)
      | (Inr resp, io1) \<Rightarrow>
          (case Body resp of
             None \<Rightarrow> (Inl (Err (New (genericAPIError k))), io1)
           | Some json \<Rightarrow>
               (case Children (Search json [''items'']) of
                  None \<Rightarrow> (Inl (Err (New (genericAPIError k))), io1)
                | Some projects \<Rightarrow> (projectNames projects [], io1))))"

subsection \<open>Handlers\<close>

text \<open>
  A handler is given the name of the user (\<open>common.GetUserName(c)\<close>) and what the
  request carries, and answers with the calls of \<open>c.JSON(status, payload)\<close> it makes, in
  order; \<open>None\<close> is a handler that panicked. \<open>NewTestProjectCommand\<close> is declared in
  package common; its fields are those the handler reads. A request whose body
  \<open>c.BindJSON\<close> rejects is \<open>None\<close>.
\<close>

datatype payload = ApiResponse string | Information "ProjectInformation option"

record NewTestProjectCommand =
  ClusterId :: string
  Project :: string

definition newTestProjectHandler ::
  "'s Plugin \<Rightarrow> constants \<Rightarrow> string \<Rightarrow> NewTestProjectCommand option \<Rightarrow> 's io
     \<Rightarrow> (int \<times> payload) list \<times> 's io" where
  "newTestProjectHandler p k username bound io =
     (case bound of
        None \<Rightarrow> ([(400, ApiResponse (wrongAPIUsageError k))], io)
      | Some data0 \<Rightarrow>
          (let billing = ''keine-verrechnung'';
               data = data0\<lparr>Project := username @ ''-'' @ Project data0\<rparr>
           in case validateNewProject (Project data) billing True of
                Some err \<Rightarrow> ([(400, ApiResponse (Error err))], io)
              | None \<Rightarrow>
                  (case createNewProject p k (ClusterId data) (Project data) username billing
                          [] True io of
                     (Some err, io1) \<Rightarrow> ([(400, ApiResponse (Error err))], io1)
                   | (None, io1) \<Rightarrow>
                       ([(200, ApiResponse (''Das Test-Projekt '' @ Project data
                            @ '' wurde erstellt auf Cluster '' @ ClusterId data))], io1))))"

definition validateAdminAccess ::
  "'s Plugin \<Rightarrow> string \<Rightarrow> string \<Rightarrow> string \<Rightarrow> 's io \<Rightarrow> error option \<times> 's io" where
  "validateAdminAccess p clusterId username project io =
     (if clusterId = [] then (Some (New ''Cluster must be provided''), io)
      else if project = [] then (Some (New ''Project name must be provided''), io)
      else case checkAdminPermissions p clusterId username project io of
             (Some err, io1) \<Rightarrow> (Some err, io1)
           | (None, io1) \<Rightarrow> (None, io1))"

definition getProjectInformationHandler ::
  "'s Plugin \<Rightarrow> constants \<Rightarrow> string \<Rightarrow> string \<Rightarrow> string \<Rightarrow> 's io
     \<Rightarrow> (int \<times> payload) list option \<times> 's io" where
  "getProjectInformationHandler p k username clusterId project io =
     (case validateAdminAccess p clusterId username project io of
        (Some err, io1) \<Rightarrow> (Some [(400, ApiResponse (Error err))], io1)
      | (None, io1) \<Rightarrow>
          (case getProjectInformation p k clusterId project io1 of
             (Inl Panic, io2) \<Rightarrow> (None, io2)
           | (Inl (Err err), io2) \<Rightarrow>
               (Some [(400, ApiResponse (Error err)), (200, Information None)], io2)
           | (Inr info, io2) \<Rightarrow> (Some [(200, Information (Some info))], io2)))"

subsection \<open>A scripted world\<close>

text \<open>
  The simplest transport: the world is the list of answers still to come, and each
  request takes the next one (a transport error once the list is used up).
\<close>

definition scripted :: "request \<Rightarrow> response option list \<Rightarrow> response option \<times> response option list" where
  "scripted rq s = (case s of [] \<Rightarrow> (None, []) | r # rs \<Rightarrow> (r, rs))"

subsection \<open>A concrete plugin\<close>

text \<open>
  Constants and a plugin with the one cluster \<open>c1\<close> over the scripted world, with a
  permission check that lets everyone through; the concrete runs below use them.
\<close>

definition k0 :: constants where
  "k0 = \<lparr>genericAPIError = ''generic API error'', wrongAPIUsageError = ''wrong API usage'',
          testProjectDeletionDays = ''30'', clusterUnknownError = ''cluster unknown'',
          ToLower = asciiToLower, ToUpper = asciiToUpper\<rparr>"

definition p0 :: "response option list Plugin" where
  "p0 = \<lparr>clusters = [''c1''], transport = scripted,
          checkAdminPermissions = (\<lambda>clusterId username project io. (None, io))\<rparr>"

subsection \<open>A namespace document\<close>

text \<open>
  A namespace as the cluster may answer it: it has a description and a MEGA-ID among
  its annotations.
\<close>

definition annotations0 :: "(string \<times> json) list" where
  "annotations0 = [(''openshift.io/description'', JString ''mine''),
                   (''openshift.io/MEGAID'', JString ''old'')]"

definition metadata0 :: "(string \<times> json) list" where
  "metadata0 = [(''name'', JString ''demo''), (''annotations'', JObject annotations0)]"

definition root0 :: "(string \<times> json) list" where
  "root0 = [(''kind'', JString ''Namespace''), (''metadata'', JObject metadata0)]"

definition namespace0 :: json where
  "namespace0 = JObject root0"

subsection \<open>A creation that succeeds\<close>

text \<open>
  The answers of a cluster to a creation that goes through: the project is created, the
  admin role binding is read and written, the namespace is read and written.
  \<open>namespace1 m\<close> is the namespace after \<open>bob\<close> has created it with billing code
  \<open>4711\<close>, carrying the MEGA-ID \<open>m\<close>.
\<close>

definition rolebinding0 :: json where
  "rolebinding0 = JObject [(''kind'', JString ''RoleBinding''),
                           (''userNames'', JArray [JString ''system:admin''])]"

definition script0 :: "response option list" where
  "script0 = [Some \<lparr>StatusCode = 201, Body = None\<rparr>,
              Some \<lparr>StatusCode = 200, Body = Some rolebinding0\<rparr>,
              Some \<lparr>StatusCode = 200, Body = None\<rparr>,
              Some \<lparr>StatusCode = 200, Body = Some namespace0\<rparr>,
              Some \<lparr>StatusCode = 200, Body = None\<rparr>]"

definition namespace1 :: "string \<Rightarrow> json" where
  "namespace1 megaid =
     JObject [(''kind'', JString ''Namespace''),
              (''metadata'', JObject [(''name'', JString ''demo''),
                 (''annotations'', JObject [(''openshift.io/description'', JString ''mine''),
                                            (''openshift.io/MEGAID'', JString megaid),
                                            (''openshift.io/kontierung-element'', JString ''4711''),
                                            (''openshift.io/requester'', JString ''bob'')])])]"

subsection \<open>Two grants in a row\<close>

text \<open>
  \<open>rolebinding1\<close> is the admin role binding after \<open>Bob\<close> has been granted admin
  once; \<open>script1\<close> are the answers of a cluster to two grants in a row, the second
  GET answered with what the first PUT wrote.
\<close>

definition rolebinding1 :: json where
  "rolebinding1 = JObject [(''kind'', JString ''RoleBinding''),
                           (''userNames'', JArray [JString ''system:admin'', JString ''bob'',
                                                   JString ''BOB''])]"

definition script1 :: "response option list" where
  "script1 = [Some \<lparr>StatusCode = 200, Body = Some rolebinding0\<rparr>,
              Some \<lparr>StatusCode = 200, Body = None\<rparr>,
              Some \<lparr>StatusCode = 200, Body = Some rolebinding1\<rparr>,
              Some \<lparr>StatusCode = 200, Body = None\<rparr>]"

subsection \<open>A test project\<close>

text \<open>
  The namespace of the test project \<open>alice-demo\<close> as the cluster has it after creating
  it, and the answers of the cluster to the creation. \<open>namespace3\<close> is that namespace
  with \<open>null\<close> for its annotations, and \<open>script3\<close> the answers with it.
\<close>

definition namespace2 :: json where
  "namespace2 =
     JObject [(''kind'', JString ''Namespace''),
              (''metadata'', JObject [(''name'', JString ''alice-demo''),
                 (''annotations'', JObject [(''openshift.io/requester'', JString ''alice'')])])]"

definition script2 :: "response option list" where
  "script2 = [Some \<lparr>StatusCode = 201, Body = None\<rparr>,
              Some \<lparr>StatusCode = 200, Body = Some rolebinding0\<rparr>,
              Some \<lparr>StatusCode = 200, Body = None\<rparr>,
              Some \<lparr>StatusCode = 200, Body = Some namespace2\<rparr>,
              Some \<lparr>StatusCode = 200, Body = None\<rparr>]"

definition namespace3 :: json where
  "namespace3 =
     JObject [(''kind'', JString ''Namespace''),
              (''metadata'', JObject [(''name'', JString ''alice-demo''),
                                      (''annotations'', JNull)])]"

definition script3 :: "response option list" where
  "script3 = [Some \<lparr>StatusCode = 201, Body = None\<rparr>,
              Some \<lparr>StatusCode = 200, Body = Some rolebinding0\<rparr>,
              Some \<lparr>StatusCode = 200, Body = None\<rparr>,
              Some \<lparr>StatusCode = 200, Body = Some namespace3\<rparr>,
              Some \<lparr>StatusCode = 200, Body = None\<rparr>]"

subsection \<open>A project list\<close>

text \<open>The list of projects of a cluster with two projects.\<close>

definition projects0 :: json where
  "projects0 = JObject [(''kind'', JString ''ProjectList''),
     (''items'', JArray [JObject [(''metadata'', JObject [(''name'', JString ''demo'')])],
                         JObject [(''metadata'', JObject [(''name'', JString ''alice-demo'')])]])]"

section \<open>Properties\<close>

subsection \<open>What a call of the cluster leaves on the wire\<close>

lemmas run_defs =
  getOseHTTPClient_def send_def scripted_def p0_def k0_def newObjectRequest_def
  asciiToLower_def toLowerChar_def asciiToUpper_def toUpperChar_def

lemma getOseHTTPClient_Inr:
  assumes "getOseHTTPClient p k m c e b io = (Inr resp, io1)"
  shows "c \<in> set (clusters p)
       \<and> snd io1 = snd io @ [(\<lparr>req_method = m, req_cluster = c, req_path = e, req_body = b\<rparr>, Some resp)]"
  using assms
  by (auto simp: getOseHTTPClient_def send_def split: if_splits prod.splits option.splits)

lemma getOseHTTPClient_Inl:
  assumes "getOseHTTPClient p k m c e b io = (Inl err, io1)"
  shows "(c \<notin> set (clusters p) \<and> err = NotFoundError (clusterUnknownError k) \<and> io1 = io)
       \<or> (c \<in> set (clusters p) \<and> err = New (genericAPIError k)
          \<and> snd io1 = snd io @ [(\<lparr>req_method = m, req_cluster = c, req_path = e, req_body = b\<rparr>, None)])"
  using assms
  by (auto simp: getOseHTTPClient_def send_def split: if_splits prod.splits option.splits)


subsection \<open>Validation\<close>

text \<open>
  C6, as the spec states it, asks for the error naming the accounting number whenever
  the project is not a test project and the billing code is empty. With an empty project
  name as well, the name is checked first and the error names the project.
\<close>

theorem validateNewProject_order_counterexample:
  "validateNewProject [] [] False = Some (New ''Project name has to be provided'')
   \<and> validateNewProject [] [] False \<noteq> Some (New ''Accounting number must be provided'')"
  by (simp add: validateNewProject_def)

text \<open>
  C6 (amended). Validation passes whenever the project name is non-empty and either the
  billing code is non-empty or the project is a test project; it fails with the error
  naming the project whenever the project name is empty, whatever the billing code; it
  fails with the error naming the accounting number whenever the project name is
  non-empty, the project is not a test project and the billing code is empty.
\<close>

theorem validateNewProject_cases:
  "(project \<noteq> [] \<and> (billing \<noteq> [] \<or> testProject)
      \<longrightarrow> validateNewProject project billing testProject = None)
   \<and> (project = []
      \<longrightarrow> validateNewProject project billing testProject
            = Some (New ''Project name has to be provided''))
   \<and> (project \<noteq> [] \<and> \<not> testProject \<and> billing = []
      \<longrightarrow> validateNewProject project billing testProject
            = Some (New ''Accounting number must be provided''))"
  by (simp add: validateNewProject_def)

theorem validateNewProject_cases_witness:
  "validateNewProject ''demo'' ''4711'' False = None
   \<and> validateNewProject ''demo'' [] True = None
   \<and> validateNewProject [] ''4711'' False = Some (New ''Project name has to be provided'')
   \<and> validateNewProject ''demo'' [] False = Some (New ''Accounting number must be provided'')"
  using validateNewProject_cases [of "''demo''" "''4711''" False]
    validateNewProject_cases [of "''demo''" "[]" True]
    validateNewProject_cases [of "[]" "''4711''" False]
    validateNewProject_cases [of "''demo''" "[]" False]
  by simp

subsection \<open>The creation step\<close>

text \<open>
  C1. Once the POST to the project-creation endpoint is answered, the status of the
  answer decides the outcome. With 201 the permission step runs and, if it succeeds, the
  metadata step, whose outcome is the outcome of the creation. With 409 the creation
  ends with the error "The project already exists", and with any other status with the
  generic error; in both cases the state is the one the POST left, so the POST is the
  only exchange on the wire: no role binding and no namespace is read or written.
\<close>

theorem createNewProject_by_status:
  assumes post: "getOseHTTPClient p k ''POST'' clusterId ''oapi/v1/projectrequests''
                   (Some (newObjectRequest ''ProjectRequest'' (ToLower k project))) io = (Inr resp, io1)"
  shows "(StatusCode resp = 201 \<longrightarrow>
            createNewProject p k clusterId project username billing megaid testProject io
              = (case changeProjectPermission p k clusterId (ToLower k project) username io1 of
                   (Some err, io2) \<Rightarrow> (Some err, io2)
                 | (None, io2) \<Rightarrow>
                     createOrUpdateMetadata p k clusterId (ToLower k project) billing megaid
                       username testProject io2))
       \<and> (StatusCode resp = 409 \<longrightarrow>
            createNewProject p k clusterId project username billing megaid testProject io
              = (Some (New ''The project already exists''), io1))
       \<and> (StatusCode resp \<noteq> 201 \<and> StatusCode resp \<noteq> 409 \<longrightarrow>
            createNewProject p k clusterId project username billing megaid testProject io
              = (Some (New (genericAPIError k)), io1))
       \<and> snd io1 = snd io @ [(\<lparr>req_method = ''POST'', req_cluster = clusterId,
                                req_path = ''oapi/v1/projectrequests'',
                                req_body = Some (newObjectRequest ''ProjectRequest'' (ToLower k project))\<rparr>,
                              Some resp)]"
proof -
  have wire: "snd io1 = snd io @ [(\<lparr>req_method = ''POST'', req_cluster = clusterId,
                                req_path = ''oapi/v1/projectrequests'',
                                req_body = Some (newObjectRequest ''ProjectRequest'' (ToLower k project))\<rparr>,
                              Some resp)]"
    using getOseHTTPClient_Inr [OF post] by simp
  have created: "StatusCode resp = 201 \<Longrightarrow>
            createNewProject p k clusterId project username billing megaid testProject io
              = (case changeProjectPermission p k clusterId (ToLower k project) username io1 of
                   (Some err, io2) \<Rightarrow> (Some err, io2)
                 | (None, io2) \<Rightarrow>
                     createOrUpdateMetadata p k clusterId (ToLower k project) billing megaid
                       username testProject io2)"
    using post by (simp add: createNewProject_def split: prod.splits option.splits)
  have conflict: "StatusCode resp = 409 \<Longrightarrow>
            createNewProject p k clusterId project username billing megaid testProject io
              = (Some (New ''The project already exists''), io1)"
    using post by (simp add: createNewProject_def)
  have other: "StatusCode resp \<noteq> 201 \<Longrightarrow> StatusCode resp \<noteq> 409 \<Longrightarrow>
            createNewProject p k clusterId project username billing megaid testProject io
              = (Some (New (genericAPIError k)), io1)"
    using post by (simp add: createNewProject_def)
  from wire created conflict other show ?thesis by blast
qed

theorem createNewProject_by_status_witness:
  "createNewProject p0 k0 ''c1'' ''Demo'' ''bob'' ''4711'' ''m1'' False
     ([Some \<lparr>StatusCode = 409, Body = None\<rparr>], [])
   = (Some (New ''The project already exists''),
      ([], [(\<lparr>req_method = ''POST'', req_cluster = ''c1'', req_path = ''oapi/v1/projectrequests'',
              req_body = Some (newObjectRequest ''ProjectRequest'' ''demo'')\<rparr>,
             Some \<lparr>StatusCode = 409, Body = None\<rparr>)]))
   \<and> createNewProject p0 k0 ''c1'' ''Demo'' ''bob'' ''4711'' ''m1'' False
     ([Some \<lparr>StatusCode = 500, Body = None\<rparr>], [])
   = (Some (New (genericAPIError k0)),
      ([], [(\<lparr>req_method = ''POST'', req_cluster = ''c1'', req_path = ''oapi/v1/projectrequests'',
              req_body = Some (newObjectRequest ''ProjectRequest'' ''demo'')\<rparr>,
             Some \<lparr>StatusCode = 500, Body = None\<rparr>)]))
   \<and> createNewProject p0 k0 ''c1'' ''Demo'' ''bob'' ''4711'' ''m1'' False
     ([Some \<lparr>StatusCode = 201, Body = None\<rparr>], [])
   = (case changeProjectPermission p0 k0 ''c1'' ''demo'' ''bob''
             ([], [(\<lparr>req_method = ''POST'', req_cluster = ''c1'', req_path = ''oapi/v1/projectrequests'',
              req_body = Some (newObjectRequest ''ProjectRequest'' ''demo'')\<rparr>,
             Some \<lparr>StatusCode = 201, Body = None\<rparr>)]) of
        (Some err, io2) \<Rightarrow> (Some err, io2)
      | (None, io2) \<Rightarrow> createOrUpdateMetadata p0 k0 ''c1'' ''demo'' ''4711'' ''m1'' ''bob'' False io2)"
proof -
  have lower: "ToLower k0 ''Demo'' = ''demo''"
    by (simp add: k0_def asciiToLower_def toLowerChar_def)
  have post: "getOseHTTPClient p0 k0 ''POST'' ''c1'' ''oapi/v1/projectrequests''
                (Some (newObjectRequest ''ProjectRequest'' (ToLower k0 ''Demo''))) ([Some \<lparr>StatusCode = st, Body = None\<rparr>], [])
              = (Inr \<lparr>StatusCode = st, Body = None\<rparr>,
                 ([], [(\<lparr>req_method = ''POST'', req_cluster = ''c1'', req_path = ''oapi/v1/projectrequests'',
                         req_body = Some (newObjectRequest ''ProjectRequest'' ''demo'')\<rparr>,
                        Some \<lparr>StatusCode = st, Body = None\<rparr>)]))" for st
    by (simp add: lower getOseHTTPClient_def send_def scripted_def p0_def)
  show ?thesis
    using createNewProject_by_status [OF post [of 409], of "''bob''" "''4711''" "''m1''" False]
      createNewProject_by_status [OF post [of 500], of "''bob''" "''4711''" "''m1''" False]
      createNewProject_by_status [OF post [of 201], of "''bob''" "''4711''" "''m1''" False]
    unfolding lower by simp
qed



subsection \<open>The metadata step\<close>

lemmas doc_defs = namespace0_def root0_def metadata0_def annotations0_def

lemma SetVia_annotations:
  assumes "map_of root ''metadata'' = Some (JObject md)"
    and "map_of md ''annotations'' = Some (JObject ann)"
  shows "SetVia annotationsPath v key (JObject root)
         = JObject (AList.update ''metadata''
             (JObject (AList.update ''annotations'' (JObject (AList.update key v ann)) md)) root)"
  using assms by (simp add: SetVia_def)

lemma SetVia_again:
  "SetVia annotationsPath v key
     (JObject (AList.update ''metadata''
        (JObject (AList.update ''annotations'' (JObject ann) md)) root))
   = JObject (AList.update ''metadata''
        (JObject (AList.update ''annotations'' (JObject (AList.update key v ann)) md)) root)"
  by (simp add: SetVia_def update_conv')

lemma getOseHTTPClient_known:
  assumes "c \<in> set (clusters p)"
  shows "\<exists>answer. snd (snd (getOseHTTPClient p k m c e b io))
           = snd io @ [(\<lparr>req_method = m, req_cluster = c, req_path = e, req_body = b\<rparr>, answer)]
         \<and> (case fst (getOseHTTPClient p k m c e b io) of
               Inl err \<Rightarrow> err = New (genericAPIError k) \<and> answer = None
             | Inr resp \<Rightarrow> answer = Some resp)"
  using assms
  by (auto simp: getOseHTTPClient_def send_def split: prod.splits option.splits)

lemma createOrUpdateMetadata_document:
  assumes get: "getOseHTTPClient p k ''GET'' clusterId (''api/v1/namespaces/'' @ project) None io
                  = (Inr resp, io1)"
    and body: "Body resp = Some (JObject root)"
    and md: "map_of root ''metadata'' = Some (JObject md)"
    and ann: "map_of md ''annotations'' = Some (JObject ann)"
    and ann1: "ann1 = AList.update ''openshift.io/requester'' (JString username)
                    (AList.update ''openshift.io/kontierung-element'' (JString billing) ann)"
    and ann2: "ann2 = (if testProject
                    then AList.update ''openshift.io/description''
                           (JString (descriptionText (testProjectDeletionDays k)))
                           (AList.update ''openshift.io/testproject-daystodeletion''
                              (JString (testProjectDeletionDays k)) ann1)
                    else ann1)"
    and ann3: "ann3 = (if megaid \<noteq> [] then AList.update ''openshift.io/MEGAID'' (JString megaid) ann2
                    else ann2)"
  shows "createOrUpdateMetadata p k clusterId project billing megaid username testProject io
         = (case getOseHTTPClient p k ''PUT'' clusterId (''api/v1/namespaces/'' @ project)
                   (Some (JObject (AList.update ''metadata''
                      (JObject (AList.update ''annotations'' (JObject ann3) md)) root))) io1 of
              (Inl err, io2) \<Rightarrow> (Some err, io2)
            | (Inr resp2, io2) \<Rightarrow>
                if StatusCode resp2 = 200 then (None, io2)
                else (Some (New (genericAPIError k)), io2))"
  using get body
  by (simp add: createOrUpdateMetadata_def SetVia_annotations [OF md ann] SetVia_again
      ann1 ann2 ann3 Let_def)

text \<open>
  C2, as the spec states it, has every annotation other than the billing code, the
  requester and the MEGA-ID written back unchanged. For a test project the description
  of the namespace is overwritten as well.
\<close>

theorem createOrUpdateMetadata_description_counterexample:
  "createOrUpdateMetadata p0 k0 ''c1'' ''demo'' ''4711'' [] ''bob'' True
     ([Some \<lparr>StatusCode = 200, Body = Some namespace0\<rparr>,
       Some \<lparr>StatusCode = 200, Body = None\<rparr>], [])
   = (None, [],
      [(\<lparr>req_method = ''GET'', req_cluster = ''c1'', req_path = ''api/v1/namespaces/demo'',
          req_body = None\<rparr>, Some \<lparr>StatusCode = 200, Body = Some namespace0\<rparr>),
       (\<lparr>req_method = ''PUT'', req_cluster = ''c1'', req_path = ''api/v1/namespaces/demo'',
          req_body = Some (JObject
            [(''kind'', JString ''Namespace''),
             (''metadata'', JObject
                [(''name'', JString ''demo''),
                 (''annotations'', JObject
                    [(''openshift.io/description'', JString (descriptionText ''30'')),
                     (''openshift.io/MEGAID'', JString ''old''),
                     (''openshift.io/kontierung-element'', JString ''4711''),
                     (''openshift.io/requester'', JString ''bob''),
                     (''openshift.io/testproject-daystodeletion'', JString ''30'')])])])\<rparr>,
        Some \<lparr>StatusCode = 200, Body = None\<rparr>)])
   \<and> Search (Search namespace0 annotationsPath) [''openshift.io/description''] = JString ''mine''
   \<and> descriptionText ''30'' \<noteq> ''mine''"
  by (simp add: createOrUpdateMetadata_def getOseHTTPClient_def send_def scripted_def p0_def
      k0_def doc_defs SetVia_def descriptionText_def)

text \<open>
  C2 (amended). Take a namespace document that has an object at
  \<open>metadata.annotations\<close>. The metadata step PUTs the whole document it fetched, as it
  was decoded (a number as the \<open>float64\<close> it was read as), with only that object
  changed: the billing and the requester annotations are the supplied
  values; the MEGA-ID annotation is the supplied value when that is non-empty and what
  it was before otherwise; for a test project the deletion-days and description
  annotations are set as well; every other annotation, every other member of
  \<open>metadata\<close> and every other member of the document is as it was decoded.
\<close>

theorem createOrUpdateMetadata_frame:
  assumes get: "getOseHTTPClient p k ''GET'' clusterId (''api/v1/namespaces/'' @ project) None io
                  = (Inr resp, io1)"
    and body: "Body resp = Some (JObject root)"
    and md: "map_of root ''metadata'' = Some (JObject md)"
    and ann: "map_of md ''annotations'' = Some (JObject ann)"
  shows "\<exists>ann' answer.
      snd (snd (createOrUpdateMetadata p k clusterId project billing megaid username
                  testProject io))
        = snd io1 @ [(\<lparr>req_method = ''PUT'', req_cluster = clusterId,
                        req_path = ''api/v1/namespaces/'' @ project,
                        req_body = Some (JObject (AList.update ''metadata''
                          (JObject (AList.update ''annotations'' (JObject ann') md)) root))\<rparr>,
                      answer)]
    \<and> map_of ann' ''openshift.io/kontierung-element'' = Some (JString billing)
    \<and> map_of ann' ''openshift.io/requester'' = Some (JString username)
    \<and> (megaid \<noteq> [] \<longrightarrow> map_of ann' ''openshift.io/MEGAID'' = Some (JString megaid))
    \<and> (megaid = [] \<longrightarrow> map_of ann' ''openshift.io/MEGAID'' = map_of ann ''openshift.io/MEGAID'')
    \<and> (testProject \<longrightarrow>
          map_of ann' ''openshift.io/testproject-daystodeletion''
            = Some (JString (testProjectDeletionDays k))
        \<and> map_of ann' ''openshift.io/description''
            = Some (JString (descriptionText (testProjectDeletionDays k))))
    \<and> (\<forall>key. key \<notin> {''openshift.io/kontierung-element'', ''openshift.io/requester'',
                       ''openshift.io/MEGAID''}
             \<and> (testProject \<longrightarrow> key \<notin> {''openshift.io/testproject-daystodeletion'',
                                           ''openshift.io/description''})
             \<longrightarrow> map_of ann' key = map_of ann key)"
proof -
  define ann1 where "ann1 = AList.update ''openshift.io/requester'' (JString username)
                    (AList.update ''openshift.io/kontierung-element'' (JString billing) ann)"
  define ann2 where "ann2 = (if testProject
                    then AList.update ''openshift.io/description''
                           (JString (descriptionText (testProjectDeletionDays k)))
                           (AList.update ''openshift.io/testproject-daystodeletion''
                              (JString (testProjectDeletionDays k)) ann1)
                    else ann1)"
  define ann3 where "ann3 = (if megaid \<noteq> [] then AList.update ''openshift.io/MEGAID'' (JString megaid) ann2
                    else ann2)"
  define written where "written = JObject (AList.update ''metadata''
                      (JObject (AList.update ''annotations'' (JObject ann3) md)) root)"
  define rq where "rq = \<lparr>req_method = ''PUT'', req_cluster = clusterId,
                        req_path = ''api/v1/namespaces/'' @ project, req_body = Some written\<rparr>"
  have run: "createOrUpdateMetadata p k clusterId project billing megaid username testProject io
         = (case getOseHTTPClient p k ''PUT'' clusterId (''api/v1/namespaces/'' @ project)
                   (Some written) io1 of
              (Inl err, io2) \<Rightarrow> (Some err, io2)
            | (Inr resp2, io2) \<Rightarrow>
                if StatusCode resp2 = 200 then (None, io2)
                else (Some (New (genericAPIError k)), io2))"
    using createOrUpdateMetadata_document [OF get body md ann ann1_def ann2_def ann3_def]
    by (simp add: written_def)
  have known: "clusterId \<in> set (clusters p)"
    using getOseHTTPClient_Inr [OF get] by simp
  obtain answer where put:
    "snd (snd (getOseHTTPClient p k ''PUT'' clusterId (''api/v1/namespaces/'' @ project)
                 (Some written) io1)) = snd io1 @ [(rq, answer)]"
    using getOseHTTPClient_known [OF known] unfolding rq_def by blast
  have wire: "snd (snd (createOrUpdateMetadata p k clusterId project billing megaid username
                  testProject io)) = snd io1 @ [(rq, answer)]"
    using put unfolding run by (auto split: prod.splits sum.splits)
  have b: "map_of ann3 ''openshift.io/kontierung-element'' = Some (JString billing)"
    by (simp add: ann3_def ann2_def ann1_def update_conv')
  have r: "map_of ann3 ''openshift.io/requester'' = Some (JString username)"
    by (simp add: ann3_def ann2_def ann1_def update_conv')
  have m1: "megaid \<noteq> [] \<Longrightarrow> map_of ann3 ''openshift.io/MEGAID'' = Some (JString megaid)"
    by (simp add: ann3_def update_conv')
  have m2: "megaid = [] \<Longrightarrow> map_of ann3 ''openshift.io/MEGAID'' = map_of ann ''openshift.io/MEGAID''"
    by (simp add: ann3_def ann2_def ann1_def update_conv')
  have t: "testProject \<Longrightarrow>
          map_of ann3 ''openshift.io/testproject-daystodeletion''
            = Some (JString (testProjectDeletionDays k))
        \<and> map_of ann3 ''openshift.io/description''
            = Some (JString (descriptionText (testProjectDeletionDays k)))"
    by (simp add: ann3_def ann2_def update_conv')
  have other: "map_of ann3 key = map_of ann key"
    if "key \<notin> {''openshift.io/kontierung-element'', ''openshift.io/requester'',
                       ''openshift.io/MEGAID''}"
      and "testProject \<longrightarrow> key \<notin> {''openshift.io/testproject-daystodeletion'',
                                           ''openshift.io/description''}" for key
    using that by (simp add: ann3_def ann2_def ann1_def update_conv')
  show ?thesis
    apply (rule exI [of _ ann3], rule exI [of _ answer])
    using wire b r m1 m2 t other unfolding rq_def written_def by simp
qed

theorem createOrUpdateMetadata_frame_witness:
  "\<exists>ann' answer.
      snd (snd (createOrUpdateMetadata p0 k0 ''c1'' ''demo'' ''4711'' [] ''bob'' False
                  ([Some \<lparr>StatusCode = 200, Body = Some namespace0\<rparr>,
                    Some \<lparr>StatusCode = 200, Body = None\<rparr>], [])))
        = [(\<lparr>req_method = ''GET'', req_cluster = ''c1'', req_path = ''api/v1/namespaces/demo'',
             req_body = None\<rparr>, Some \<lparr>StatusCode = 200, Body = Some namespace0\<rparr>),
           (\<lparr>req_method = ''PUT'', req_cluster = ''c1'', req_path = ''api/v1/namespaces/demo'',
             req_body = Some (JObject (AList.update ''metadata''
               (JObject (AList.update ''annotations'' (JObject ann') metadata0)) root0))\<rparr>,
            answer)]
    \<and> map_of ann' ''openshift.io/kontierung-element'' = Some (JString ''4711'')
    \<and> map_of ann' ''openshift.io/requester'' = Some (JString ''bob'')
    \<and> map_of ann' ''openshift.io/MEGAID'' = Some (JString ''old'')
    \<and> map_of ann' ''openshift.io/description'' = Some (JString ''mine'')"
proof -
  have get: "getOseHTTPClient p0 k0 ''GET'' ''c1'' (''api/v1/namespaces/'' @ ''demo'') None
               ([Some \<lparr>StatusCode = 200, Body = Some namespace0\<rparr>,
                 Some \<lparr>StatusCode = 200, Body = None\<rparr>], [])
             = (Inr \<lparr>StatusCode = 200, Body = Some namespace0\<rparr>,
                ([Some \<lparr>StatusCode = 200, Body = None\<rparr>],
                 [(\<lparr>req_method = ''GET'', req_cluster = ''c1'',
                     req_path = ''api/v1/namespaces/demo'', req_body = None\<rparr>,
                   Some \<lparr>StatusCode = 200, Body = Some namespace0\<rparr>)]))"
    by (simp add: getOseHTTPClient_def send_def scripted_def p0_def)
  have body: "Body \<lparr>StatusCode = 200, Body = Some namespace0\<rparr> = Some (JObject root0)"
    by (simp add: namespace0_def)
  have md: "map_of root0 ''metadata'' = Some (JObject metadata0)"
    by (simp add: root0_def)
  have ann: "map_of metadata0 ''annotations'' = Some (JObject annotations0)"
    by (simp add: metadata0_def)
  obtain ann' answer where
    wire: "snd (snd (createOrUpdateMetadata p0 k0 ''c1'' ''demo'' ''4711'' [] ''bob'' False
                  ([Some \<lparr>StatusCode = 200, Body = Some namespace0\<rparr>,
                    Some \<lparr>StatusCode = 200, Body = None\<rparr>], [])))
        = [(\<lparr>req_method = ''GET'', req_cluster = ''c1'', req_path = ''api/v1/namespaces/demo'',
             req_body = None\<rparr>, Some \<lparr>StatusCode = 200, Body = Some namespace0\<rparr>),
           (\<lparr>req_method = ''PUT'', req_cluster = ''c1'', req_path = ''api/v1/namespaces/demo'',
             req_body = Some (JObject (AList.update ''metadata''
               (JObject (AList.update ''annotations'' (JObject ann') metadata0)) root0))\<rparr>,
            answer)]"
    and billing: "map_of ann' ''openshift.io/kontierung-element'' = Some (JString ''4711'')"
    and requester: "map_of ann' ''openshift.io/requester'' = Some (JString ''bob'')"
    and mega: "map_of ann' ''openshift.io/MEGAID'' = map_of annotations0 ''openshift.io/MEGAID''"
    and other: "\<forall>key. key \<notin> {''openshift.io/kontierung-element'', ''openshift.io/requester'',
                       ''openshift.io/MEGAID''}
             \<longrightarrow> map_of ann' key = map_of annotations0 key"
    using createOrUpdateMetadata_frame [where billing = "''4711''" and megaid = "[]"
        and username = "''bob''" and testProject = False, OF get body md ann]
    by auto
  have description: "map_of ann' ''openshift.io/description'' = Some (JString ''mine'')"
    using other [rule_format, of "''openshift.io/description''"] by (simp add: annotations0_def)
  have mega': "map_of ann' ''openshift.io/MEGAID'' = Some (JString ''old'')"
    using mega by (simp add: annotations0_def)
  from wire billing requester mega' description show ?thesis
    by (intro exI [of _ ann'] exI [of _ answer] conjI)
qed

subsection \<open>Reading back what a creation wrote\<close>

lemmas eval_defs =
  createNewProject_def changeProjectPermission_def getAdminRoleBinding_def
  createOrUpdateMetadata_def getProjectInformation_def ArrayAppend_def SetVia_def
  script0_def rolebinding0_def namespace1_def Let_def

lemma Search_annotations_object:
  assumes "Search j [a, b] = JObject ann"
  shows "\<exists>root md. j = JObject root \<and> map_of root a = Some (JObject md)
           \<and> map_of md b = Some (JObject ann)"
proof (cases j)
  case (JObject root)
  show ?thesis
  proof (cases "map_of root a")
    case None
    with JObject assms show ?thesis by simp
  next
    case (Some v)
    with JObject assms have inner: "Search v [b] = JObject ann" by simp
    then have "\<exists>md. v = JObject md \<and> map_of md b = Some (JObject ann)"
      by (cases v) (auto simp: Let_def split: option.splits if_splits)
    with JObject Some show ?thesis by auto
  qed
qed (use assms in \<open>auto simp: Let_def split: if_splits\<close>)

lemma last_two_exchanges:
  "xs @ [a, b] = ys @ [c, d] \<longleftrightarrow> xs = ys \<and> a = c \<and> b = d"
proof -
  have "xs @ [a, b] = (xs @ [a]) @ [b]" "ys @ [c, d] = (ys @ [c]) @ [d]" by simp_all
  then show ?thesis by (metis append1_eq_conv)
qed

lemma createNewProject_success:
  assumes "createNewProject p k clusterId project username billing megaid testProject io = (None, io3)"
  shows "\<exists>io2. createOrUpdateMetadata p k clusterId (ToLower k project) billing megaid username
                 testProject io2 = (None, io3)"
  using assms
  by (auto simp: createNewProject_def Let_def split: prod.splits sum.splits if_splits option.splits)

lemma createOrUpdateMetadata_success:
  assumes "createOrUpdateMetadata p k clusterId project billing megaid username testProject io
             = (None, io3)"
  shows "\<exists>r1 io1 fetched. getOseHTTPClient p k ''GET'' clusterId (''api/v1/namespaces/'' @ project) None io
                   = (Inr r1, io1) \<and> Body r1 = Some fetched"
  using assms
  by (auto simp: createOrUpdateMetadata_def Let_def split: prod.splits sum.splits option.splits)

lemma createOrUpdateMetadata_wire:
  assumes get: "getOseHTTPClient p k ''GET'' clusterId (''api/v1/namespaces/'' @ project) None io
                  = (Inr r1, io1)"
    and body: "Body r1 = Some fetched"
  shows "\<exists>w answer. snd (snd (createOrUpdateMetadata p k clusterId project billing megaid username
                               testProject io))
           = snd io @ [(\<lparr>req_method = ''GET'', req_cluster = clusterId,
                          req_path = ''api/v1/namespaces/'' @ project, req_body = None\<rparr>, Some r1),
                       (\<lparr>req_method = ''PUT'', req_cluster = clusterId,
                          req_path = ''api/v1/namespaces/'' @ project, req_body = Some w\<rparr>, answer)]"
proof -
  have known: "clusterId \<in> set (clusters p)"
    and wire1: "snd io1 = snd io @ [(\<lparr>req_method = ''GET'', req_cluster = clusterId,
                          req_path = ''api/v1/namespaces/'' @ project, req_body = None\<rparr>, Some r1)]"
    using getOseHTTPClient_Inr [OF get] by simp_all
  obtain w where run:
    "createOrUpdateMetadata p k clusterId project billing megaid username testProject io
       = (case getOseHTTPClient p k ''PUT'' clusterId (''api/v1/namespaces/'' @ project) (Some w) io1 of
            (Inl err, io2) \<Rightarrow> (Some err, io2)
          | (Inr resp2, io2) \<Rightarrow>
              if StatusCode resp2 = 200 then (None, io2)
              else (Some (New (genericAPIError k)), io2))"
    using get body by (simp add: createOrUpdateMetadata_def Let_def)
  obtain answer where put:
    "snd (snd (getOseHTTPClient p k ''PUT'' clusterId (''api/v1/namespaces/'' @ project) (Some w) io1))
       = snd io1 @ [(\<lparr>req_method = ''PUT'', req_cluster = clusterId,
                          req_path = ''api/v1/namespaces/'' @ project, req_body = Some w\<rparr>, answer)]"
    using getOseHTTPClient_known [OF known] by blast
  have "snd (snd (createOrUpdateMetadata p k clusterId project billing megaid username
                               testProject io))
           = snd io1 @ [(\<lparr>req_method = ''PUT'', req_cluster = clusterId,
                          req_path = ''api/v1/namespaces/'' @ project, req_body = Some w\<rparr>, answer)]"
    using put unfolding run by (auto split: prod.splits sum.splits)
  with wire1 show ?thesis by auto
qed

lemma getProjectInformation_of_document:
  assumes again: "getOseHTTPClient p k ''GET'' clusterId (''api/v1/namespaces/'' @ project) None ioA
                    = (Inr r, ioB)"
    and body: "Body r = Some (JObject (AList.update ''metadata''
                 (JObject (AList.update ''annotations'' (JObject ann') md)) root))"
    and billing: "map_of ann' ''openshift.io/kontierung-element'' = Some (JString b)"
    and mega: "map_of ann' ''openshift.io/MEGAID'' = Some (JString m)
               \<or> map_of ann' ''openshift.io/MEGAID'' = None \<and> m = []"
  shows "getProjectInformation p k clusterId project ioA
           = (Inr \<lparr>Kontierungsnummer = b, MegaID = m\<rparr>, ioB)"
  using again body billing mega
  by (auto simp: getProjectInformation_def update_conv' Let_def)

lemma changeProjectPermission_wire:
  "\<exists>ex. snd (snd (changeProjectPermission p k clusterId project username io)) = snd io @ ex"
  by (auto simp: changeProjectPermission_def getAdminRoleBinding_def getOseHTTPClient_def
      send_def Let_def split: prod.splits sum.splits option.splits if_splits)

lemma createNewProject_post:
  assumes created: "createNewProject p k clusterId project username billing megaid testProject io
                      = (None, io3)"
  shows "\<exists>r0 rest. snd io3 = snd io @ (\<lparr>req_method = ''POST'', req_cluster = clusterId,
            req_path = ''oapi/v1/projectrequests'',
            req_body = Some (newObjectRequest ''ProjectRequest'' (ToLower k project))\<rparr>, Some r0) # rest"
proof -
  obtain r0 io1 where post: "getOseHTTPClient p k ''POST'' clusterId ''oapi/v1/projectrequests''
                   (Some (newObjectRequest ''ProjectRequest'' (ToLower k project))) io = (Inr r0, io1)"
    and rest: "(case changeProjectPermission p k clusterId (ToLower k project) username io1 of
                   (Some err, io2) \<Rightarrow> (Some err, io2)
                 | (None, io2) \<Rightarrow>
                     createOrUpdateMetadata p k clusterId (ToLower k project) billing megaid
                       username testProject io2) = (None, io3)"
    using created
    by (auto simp: createNewProject_def Let_def split: prod.splits sum.splits if_splits option.splits)
  obtain io2 where perm: "changeProjectPermission p k clusterId (ToLower k project) username io1
                            = (None, io2)"
    and meta: "createOrUpdateMetadata p k clusterId (ToLower k project) billing megaid
                       username testProject io2 = (None, io3)"
    using rest by (auto split: prod.splits option.splits)
  obtain ex where w2: "snd io2 = snd io1 @ ex"
    using changeProjectPermission_wire [of p k clusterId "ToLower k project" username io1] perm
    by auto
  obtain r1 io2' fetched where get: "getOseHTTPClient p k ''GET'' clusterId
        (''api/v1/namespaces/'' @ ToLower k project) None io2 = (Inr r1, io2')"
    and body: "Body r1 = Some fetched"
    using createOrUpdateMetadata_success [OF meta] by blast
  obtain ex' where w3: "snd io3 = snd io2 @ ex'"
    using createOrUpdateMetadata_wire [OF get body, of billing megaid username testProject] meta
    by auto
  have w1: "snd io1 = snd io @ [(\<lparr>req_method = ''POST'', req_cluster = clusterId,
            req_path = ''oapi/v1/projectrequests'',
            req_body = Some (newObjectRequest ''ProjectRequest'' (ToLower k project))\<rparr>, Some r0)]"
    using getOseHTTPClient_Inr [OF post] by simp
  from w1 w2 w3 show ?thesis by simp
qed

lemma createNewProject_written:
  assumes created: "createNewProject p k clusterId project username billing megaid testProject io
                      = (None, io3)"
    and wire: "snd io3 = pre @ [(rq1, Some r1), (rq2, a2)]"
    and fetched: "Body r1 = Some fetched"
    and object: "Search fetched annotationsPath = JObject ann"
  shows "\<exists>root md ann'.
           rq1 = \<lparr>req_method = ''GET'', req_cluster = clusterId,
                   req_path = ''api/v1/namespaces/'' @ ToLower k project, req_body = None\<rparr>
         \<and> rq2 = \<lparr>req_method = ''PUT'', req_cluster = clusterId,
                   req_path = ''api/v1/namespaces/'' @ ToLower k project,
                   req_body = Some (JObject (AList.update ''metadata''
                      (JObject (AList.update ''annotations'' (JObject ann') md)) root))\<rparr>
         \<and> map_of ann' ''openshift.io/kontierung-element'' = Some (JString billing)
         \<and> (megaid \<noteq> [] \<longrightarrow> map_of ann' ''openshift.io/MEGAID'' = Some (JString megaid))
         \<and> (megaid = [] \<longrightarrow> map_of ann' ''openshift.io/MEGAID'' = map_of ann ''openshift.io/MEGAID'')
         \<and> (testProject \<longrightarrow>
               map_of ann' ''openshift.io/testproject-daystodeletion''
                 = Some (JString (testProjectDeletionDays k))
             \<and> map_of ann' ''openshift.io/description''
                 = Some (JString (descriptionText (testProjectDeletionDays k))))"
proof -
  let ?project = "ToLower k project"
  let ?get = "\<lparr>req_method = ''GET'', req_cluster = clusterId,
                req_path = ''api/v1/namespaces/'' @ ?project, req_body = None\<rparr>"
  obtain io2 where meta:
    "createOrUpdateMetadata p k clusterId ?project billing megaid username testProject io2
       = (None, io3)"
    using createNewProject_success [OF created] by blast
  obtain r1' io2' fetched' where get: "getOseHTTPClient p k ''GET'' clusterId
        (''api/v1/namespaces/'' @ ?project) None io2 = (Inr r1', io2')"
    and body': "Body r1' = Some fetched'"
    using createOrUpdateMetadata_success [OF meta] by blast
  obtain w answer where "snd io3 = snd io2 @ [(?get, Some r1'),
        (\<lparr>req_method = ''PUT'', req_cluster = clusterId,
           req_path = ''api/v1/namespaces/'' @ ?project, req_body = Some w\<rparr>, answer)]"
    using createOrUpdateMetadata_wire [OF get body', of billing megaid username testProject] meta
    by auto
  with wire have first: "rq1 = ?get" and same: "r1 = r1'"
    and second: "rq2 = \<lparr>req_method = ''PUT'', req_cluster = clusterId,
           req_path = ''api/v1/namespaces/'' @ ?project, req_body = Some w\<rparr>"
    by (simp_all add: last_two_exchanges)
  from same fetched body' have "fetched' = fetched" by simp
  with object obtain root md where root: "fetched' = JObject root"
    and md: "map_of root ''metadata'' = Some (JObject md)"
    and ann: "map_of md ''annotations'' = Some (JObject ann)"
    using Search_annotations_object by blast
  define ann1 where "ann1 = AList.update ''openshift.io/requester'' (JString username)
                    (AList.update ''openshift.io/kontierung-element'' (JString billing) ann)"
  define ann2 where "ann2 = (if testProject
                    then AList.update ''openshift.io/description''
                           (JString (descriptionText (testProjectDeletionDays k)))
                           (AList.update ''openshift.io/testproject-daystodeletion''
                              (JString (testProjectDeletionDays k)) ann1)
                    else ann1)"
  define ann3 where "ann3 = (if megaid \<noteq> [] then AList.update ''openshift.io/MEGAID'' (JString megaid) ann2
                    else ann2)"
  define written where "written = JObject (AList.update ''metadata''
                      (JObject (AList.update ''annotations'' (JObject ann3) md)) root)"
  have run: "createOrUpdateMetadata p k clusterId ?project billing megaid username testProject io2
         = (case getOseHTTPClient p k ''PUT'' clusterId (''api/v1/namespaces/'' @ ?project)
                   (Some written) io2' of
              (Inl err, io2) \<Rightarrow> (Some err, io2)
            | (Inr resp2, io2) \<Rightarrow>
                if StatusCode resp2 = 200 then (None, io2)
                else (Some (New (genericAPIError k)), io2))"
    using createOrUpdateMetadata_document [OF get body' [unfolded root] md ann ann1_def ann2_def ann3_def]
    by (simp add: written_def)
  obtain r2 where put: "getOseHTTPClient p k ''PUT'' clusterId (''api/v1/namespaces/'' @ ?project)
                   (Some written) io2' = (Inr r2, io3)"
    using meta unfolding run by (auto split: prod.splits sum.splits if_splits)
  have "snd io3 = snd io2' @ [(\<lparr>req_method = ''PUT'', req_cluster = clusterId,
           req_path = ''api/v1/namespaces/'' @ ?project, req_body = Some written\<rparr>, Some r2)]"
    using getOseHTTPClient_Inr [OF put] by simp
  with wire second have "w = written" by simp
  with second have second': "rq2 = \<lparr>req_method = ''PUT'', req_cluster = clusterId,
                   req_path = ''api/v1/namespaces/'' @ ToLower k project,
                   req_body = Some (JObject (AList.update ''metadata''
                      (JObject (AList.update ''annotations'' (JObject ann3) md)) root))\<rparr>"
    by (simp add: written_def)
  have b: "map_of ann3 ''openshift.io/kontierung-element'' = Some (JString billing)"
    by (simp add: ann3_def ann2_def ann1_def update_conv')
  have m1: "megaid \<noteq> [] \<Longrightarrow> map_of ann3 ''openshift.io/MEGAID'' = Some (JString megaid)"
    by (simp add: ann3_def update_conv')
  have m2: "megaid = [] \<Longrightarrow> map_of ann3 ''openshift.io/MEGAID'' = map_of ann ''openshift.io/MEGAID''"
    by (simp add: ann3_def ann2_def ann1_def update_conv')
  have t: "testProject \<Longrightarrow>
          map_of ann3 ''openshift.io/testproject-daystodeletion''
            = Some (JString (testProjectDeletionDays k))
        \<and> map_of ann3 ''openshift.io/description''
            = Some (JString (descriptionText (testProjectDeletionDays k)))"
    by (simp add: ann3_def ann2_def update_conv')
  show ?thesis
    apply (rule exI [of _ root], rule exI [of _ md], rule exI [of _ ann3])
    using first second' b m1 m2 t by simp
qed

text \<open>
  C3, as the spec states it, has \<open>getProjectInformation\<close> return the MEGA-ID supplied
  at creation, whatever it is. A creation with an empty MEGA-ID does not touch the
  MEGA-ID annotation, so a namespace that already carries one reads back with it.
\<close>

theorem createNewProject_roundtrip_counterexample:
  "fst (createNewProject p0 k0 ''c1'' ''Demo'' ''bob'' ''4711'' [] False (script0, [])) = None
   \<and> last (snd (snd (createNewProject p0 k0 ''c1'' ''Demo'' ''bob'' ''4711'' [] False
                        (script0, []))))
       = (\<lparr>req_method = ''PUT'', req_cluster = ''c1'', req_path = ''api/v1/namespaces/demo'',
            req_body = Some (namespace1 ''old'')\<rparr>, Some \<lparr>StatusCode = 200, Body = None\<rparr>)
   \<and> getProjectInformation p0 k0 ''c1'' ''demo''
         ([Some \<lparr>StatusCode = 200, Body = Some (namespace1 ''old'')\<rparr>], [])
       = (Inr \<lparr>Kontierungsnummer = ''4711'', MegaID = ''old''\<rparr>,
          ([], [(\<lparr>req_method = ''GET'', req_cluster = ''c1'',
                   req_path = ''api/v1/namespaces/demo'', req_body = None\<rparr>,
                 Some \<lparr>StatusCode = 200, Body = Some (namespace1 ''old'')\<rparr>)]))
   \<and> MegaID \<lparr>Kontierungsnummer = ''4711'', MegaID = ''old''\<rparr> \<noteq> []"
  by (simp add: eval_defs run_defs doc_defs)

text \<open>
  C3 (amended). Take a creation that succeeded. The last two exchanges it left on the
  wire are the GET of the namespace and the PUT of the namespace. If the namespace that
  was fetched has an object at \<open>metadata.annotations\<close>, then a later
  \<open>getProjectInformation\<close> for the (lower-cased) project that is answered with the
  document of that PUT returns the billing code supplied at creation, and as MEGA-ID the
  supplied one when that is non-empty; when the supplied MEGA-ID is empty it returns the
  MEGA-ID the fetched namespace already carried, and the empty string when it carried
  none.
\<close>

theorem createNewProject_roundtrip:
  assumes created: "createNewProject p k clusterId project username billing megaid testProject io
                      = (None, io3)"
    and wire: "snd io3 = pre @ [(rq1, Some r1), (rq2, a2)]"
    and fetched: "Body r1 = Some fetched"
    and object: "Search fetched annotationsPath = JObject ann"
    and again: "getOseHTTPClient p k ''GET'' clusterId (''api/v1/namespaces/'' @ ToLower k project)
                  None ioA = (Inr r, ioB)"
    and echo: "Body r = req_body rq2"
  shows "rq1 = \<lparr>req_method = ''GET'', req_cluster = clusterId,
                 req_path = ''api/v1/namespaces/'' @ ToLower k project, req_body = None\<rparr>
       \<and> req_method rq2 = ''PUT'' \<and> req_cluster rq2 = clusterId
       \<and> req_path rq2 = ''api/v1/namespaces/'' @ ToLower k project
       \<and> (megaid \<noteq> [] \<longrightarrow>
            getProjectInformation p k clusterId (ToLower k project) ioA
              = (Inr \<lparr>Kontierungsnummer = billing, MegaID = megaid\<rparr>, ioB))
       \<and> (megaid = [] \<and> map_of ann ''openshift.io/MEGAID'' = None \<longrightarrow>
            getProjectInformation p k clusterId (ToLower k project) ioA
              = (Inr \<lparr>Kontierungsnummer = billing, MegaID = []\<rparr>, ioB))
       \<and> (\<forall>old. megaid = [] \<and> map_of ann ''openshift.io/MEGAID'' = Some (JString old) \<longrightarrow>
            getProjectInformation p k clusterId (ToLower k project) ioA
              = (Inr \<lparr>Kontierungsnummer = billing, MegaID = old\<rparr>, ioB))"
proof -
  let ?project = "ToLower k project"
  obtain root md ann' where
    first: "rq1 = \<lparr>req_method = ''GET'', req_cluster = clusterId,
                   req_path = ''api/v1/namespaces/'' @ ?project, req_body = None\<rparr>"
    and second: "rq2 = \<lparr>req_method = ''PUT'', req_cluster = clusterId,
                   req_path = ''api/v1/namespaces/'' @ ?project,
                   req_body = Some (JObject (AList.update ''metadata''
                      (JObject (AList.update ''annotations'' (JObject ann') md)) root))\<rparr>"
    and b: "map_of ann' ''openshift.io/kontierung-element'' = Some (JString billing)"
    and m1: "megaid \<noteq> [] \<longrightarrow> map_of ann' ''openshift.io/MEGAID'' = Some (JString megaid)"
    and m2: "megaid = [] \<longrightarrow> map_of ann' ''openshift.io/MEGAID'' = map_of ann ''openshift.io/MEGAID''"
    using createNewProject_written [OF created wire fetched object] by blast
  from second echo have echo': "Body r = Some (JObject (AList.update ''metadata''
                      (JObject (AList.update ''annotations'' (JObject ann') md)) root))"
    by simp
  have given: "megaid \<noteq> [] \<Longrightarrow>
            getProjectInformation p k clusterId ?project ioA
              = (Inr \<lparr>Kontierungsnummer = billing, MegaID = megaid\<rparr>, ioB)"
    using getProjectInformation_of_document [OF again echo' b] m1 by simp
  have none: "megaid = [] \<Longrightarrow> map_of ann ''openshift.io/MEGAID'' = None \<Longrightarrow>
            getProjectInformation p k clusterId ?project ioA
              = (Inr \<lparr>Kontierungsnummer = billing, MegaID = []\<rparr>, ioB)"
    using getProjectInformation_of_document [OF again echo' b] m2 by simp
  have kept: "megaid = [] \<Longrightarrow> map_of ann ''openshift.io/MEGAID'' = Some (JString old) \<Longrightarrow>
            getProjectInformation p k clusterId ?project ioA
              = (Inr \<lparr>Kontierungsnummer = billing, MegaID = old\<rparr>, ioB)" for old
    using getProjectInformation_of_document [OF again echo' b] m2 by simp
  from first second given none kept show ?thesis by simp
qed

theorem createNewProject_roundtrip_witness:
  "fst (createNewProject p0 k0 ''c1'' ''Demo'' ''bob'' ''4711'' ''m1'' False (script0, [])) = None
   \<and> last (snd (snd (createNewProject p0 k0 ''c1'' ''Demo'' ''bob'' ''4711'' ''m1'' False
                        (script0, []))))
       = (\<lparr>req_method = ''PUT'', req_cluster = ''c1'', req_path = ''api/v1/namespaces/demo'',
            req_body = Some (namespace1 ''m1'')\<rparr>, Some \<lparr>StatusCode = 200, Body = None\<rparr>)
   \<and> getProjectInformation p0 k0 ''c1'' ''demo''
         ([Some \<lparr>StatusCode = 200, Body = Some (namespace1 ''m1'')\<rparr>], [])
       = (Inr \<lparr>Kontierungsnummer = ''4711'', MegaID = ''m1''\<rparr>,
          ([], [(\<lparr>req_method = ''GET'', req_cluster = ''c1'',
                   req_path = ''api/v1/namespaces/demo'', req_body = None\<rparr>,
                 Some \<lparr>StatusCode = 200, Body = Some (namespace1 ''m1'')\<rparr>)]))"
proof -
  let ?run = "createNewProject p0 k0 ''c1'' ''Demo'' ''bob'' ''4711'' ''m1'' False (script0, [])"
  let ?get = "\<lparr>req_method = ''GET'', req_cluster = ''c1'',
                req_path = ''api/v1/namespaces/demo'', req_body = None\<rparr>"
  let ?put = "\<lparr>req_method = ''PUT'', req_cluster = ''c1'', req_path = ''api/v1/namespaces/demo'',
                req_body = Some (namespace1 ''m1'')\<rparr>"
  have lower: "ToLower k0 ''Demo'' = ''demo''"
    by (simp add: k0_def asciiToLower_def toLowerChar_def)
  have wire: "snd (snd ?run) = take 3 (snd (snd ?run))
                @ [(?get, Some \<lparr>StatusCode = 200, Body = Some namespace0\<rparr>),
                   (?put, Some \<lparr>StatusCode = 200, Body = None\<rparr>)]"
    and ok: "fst ?run = None"
    by (simp_all add: eval_defs run_defs doc_defs)
  from ok have created: "?run = (None, snd ?run)"
    by (simp add: prod_eq_iff)
  have fetched: "Body \<lparr>StatusCode = 200, Body = Some namespace0\<rparr> = Some namespace0"
    by simp
  have object: "Search namespace0 annotationsPath = JObject annotations0"
    by (simp add: doc_defs)
  have again: "getOseHTTPClient p0 k0 ''GET'' ''c1'' (''api/v1/namespaces/'' @ ToLower k0 ''Demo'') None
                 ([Some \<lparr>StatusCode = 200, Body = Some (namespace1 ''m1'')\<rparr>], [])
               = (Inr \<lparr>StatusCode = 200, Body = Some (namespace1 ''m1'')\<rparr>,
                  ([], [(?get, Some \<lparr>StatusCode = 200, Body = Some (namespace1 ''m1'')\<rparr>)]))"
    by (simp add: lower getOseHTTPClient_def send_def scripted_def p0_def)
  have echo: "Body \<lparr>StatusCode = 200, Body = Some (namespace1 ''m1'')\<rparr> = req_body ?put"
    by simp
  have last: "last (snd (snd ?run)) = (?put, Some \<lparr>StatusCode = 200, Body = None\<rparr>)"
    by (subst wire) simp
  from createNewProject_roundtrip [OF created wire fetched object again echo] ok last
  show ?thesis by (simp add: lower)
qed

subsection \<open>The permission step\<close>

lemma ArrayAppend_userNames:
  assumes "map_of al ''userNames'' = Some (JArray us)"
  shows "ArrayAppend v [''userNames''] (JObject al)
           = JObject (AList.update ''userNames'' (JArray (us @ [v])) al)"
  using assms by (simp add: ArrayAppend_def)

lemma changeProjectPermission_document:
  assumes get: "getAdminRoleBinding p k clusterId project io = (Inr (JObject al), io1)"
    and members: "map_of al ''userNames'' = Some (JArray us)"
  shows "changeProjectPermission p k clusterId project username io
           = (case getOseHTTPClient p k ''PUT'' clusterId
                    (''oapi/v1/namespaces/'' @ project @ ''/rolebindings/admin'')
                    (Some (JObject (AList.update ''userNames''
                       (JArray (us @ [JString (ToLower k username), JString (ToUpper k username)]))
                       al))) io1 of
                (Inl err, io2) \<Rightarrow> (Some err, io2)
              | (Inr resp, io2) \<Rightarrow>
                  if StatusCode resp = 200 then (None, io2)
                  else (Some (New (genericAPIError k)), io2))"
proof -
  have "ArrayAppend (JString (ToUpper k username)) [''userNames'']
          (ArrayAppend (JString (ToLower k username)) [''userNames''] (JObject al))
        = JObject (AList.update ''userNames''
            (JArray (us @ [JString (ToLower k username), JString (ToUpper k username)])) al)"
    by (simp add: ArrayAppend_userNames [OF members] ArrayAppend_userNames update_conv')
  with get show ?thesis
    by (simp add: changeProjectPermission_def Let_def)
qed

lemma getAdminRoleBinding_Inr:
  assumes "getAdminRoleBinding p k clusterId project io = (Inr binding, io1)"
  shows "clusterId \<in> set (clusters p)"
  using assms
  by (auto simp: getAdminRoleBinding_def getOseHTTPClient_def
      split: prod.splits sum.splits if_splits option.splits)

lemma changeProjectPermission_put:
  assumes get: "getAdminRoleBinding p k clusterId project io = (Inr (JObject al), io1)"
    and members: "map_of al ''userNames'' = Some (JArray us)"
  shows "fst (last (snd (snd (changeProjectPermission p k clusterId project username io))))
           = \<lparr>req_method = ''PUT'', req_cluster = clusterId,
               req_path = ''oapi/v1/namespaces/'' @ project @ ''/rolebindings/admin'',
               req_body = Some (JObject (AList.update ''userNames''
                 (JArray (us @ [JString (ToLower k username), JString (ToUpper k username)])) al))\<rparr>"
proof -
  let ?body = "Some (JObject (AList.update ''userNames''
                 (JArray (us @ [JString (ToLower k username), JString (ToUpper k username)])) al))"
  let ?path = "''oapi/v1/namespaces/'' @ project @ ''/rolebindings/admin''"
  have known: "clusterId \<in> set (clusters p)"
    using getAdminRoleBinding_Inr [OF get] .
  obtain answer where put:
    "snd (snd (getOseHTTPClient p k ''PUT'' clusterId ?path ?body io1))
       = snd io1 @ [(\<lparr>req_method = ''PUT'', req_cluster = clusterId, req_path = ?path,
                       req_body = ?body\<rparr>, answer)]"
    using getOseHTTPClient_known [OF known] by blast
  have "snd (snd (changeProjectPermission p k clusterId project username io))
          = snd (snd (getOseHTTPClient p k ''PUT'' clusterId ?path ?body io1))"
    unfolding changeProjectPermission_document [OF get members]
    by (auto split: prod.splits sum.splits)
  with put show ?thesis by simp
qed

text \<open>
  C4, as the spec states it, has two grants for the same user leave exactly two entries
  for that user. Each grant appends two, so two successful grants for \<open>Bob\<close>, the
  second reading what the first wrote, leave four.
\<close>

theorem changeProjectPermission_twice_counterexample:
  "changeProjectPermission p0 k0 ''c1'' ''demo'' ''Bob'' (script1, [])
     = (None,
        ([Some \<lparr>StatusCode = 200, Body = Some rolebinding1\<rparr>,
          Some \<lparr>StatusCode = 200, Body = None\<rparr>],
         [(\<lparr>req_method = ''GET'', req_cluster = ''c1'',
             req_path = ''oapi/v1/namespaces/demo/rolebindings/admin'', req_body = None\<rparr>,
           Some \<lparr>StatusCode = 200, Body = Some rolebinding0\<rparr>),
          (\<lparr>req_method = ''PUT'', req_cluster = ''c1'',
             req_path = ''oapi/v1/namespaces/demo/rolebindings/admin'',
             req_body = Some rolebinding1\<rparr>,
           Some \<lparr>StatusCode = 200, Body = None\<rparr>)]))
   \<and> changeProjectPermission p0 k0 ''c1'' ''demo'' ''Bob''
       ([Some \<lparr>StatusCode = 200, Body = Some rolebinding1\<rparr>,
         Some \<lparr>StatusCode = 200, Body = None\<rparr>], [])
     = (None,
        ([],
         [(\<lparr>req_method = ''GET'', req_cluster = ''c1'',
             req_path = ''oapi/v1/namespaces/demo/rolebindings/admin'', req_body = None\<rparr>,
           Some \<lparr>StatusCode = 200, Body = Some rolebinding1\<rparr>),
          (\<lparr>req_method = ''PUT'', req_cluster = ''c1'',
             req_path = ''oapi/v1/namespaces/demo/rolebindings/admin'',
             req_body = Some (JObject [(''kind'', JString ''RoleBinding''),
               (''userNames'', JArray [JString ''system:admin'', JString ''bob'', JString ''BOB'',
                                       JString ''bob'', JString ''BOB''])])\<rparr>,
           Some \<lparr>StatusCode = 200, Body = None\<rparr>)]))
   \<and> length [JString ''bob'', JString ''BOB'', JString ''bob'', JString ''BOB''] \<noteq> 2"
  by (simp add: changeProjectPermission_def getAdminRoleBinding_def ArrayAppend_def
      script1_def rolebinding0_def rolebinding1_def run_defs Let_def)

text \<open>
  C4 (amended). A grant whose GET of the role binding yields a document with a member
  list \<open>userNames\<close> PUTs that document with two entries appended to the list:
  \<open>strings.ToLower\<close> and \<open>strings.ToUpper\<close> of the username, in that order,
  whether or not the list already has them. So when a second grant for the same user
  reads the document the first one wrote, it PUTs the list with four entries appended:
  lower, upper, lower, upper.
\<close>

theorem changeProjectPermission_twice:
  assumes first: "getAdminRoleBinding p k clusterId project io = (Inr (JObject al), io1)"
    and members: "map_of al ''userNames'' = Some (JArray us)"
    and second: "getAdminRoleBinding p k clusterId project io' = (Inr binding, io1')"
    and echo: "req_body (fst (last (snd (snd (changeProjectPermission p k clusterId project
                 username io))))) = Some binding"
  shows "fst (last (snd (snd (changeProjectPermission p k clusterId project username io))))
           = \<lparr>req_method = ''PUT'', req_cluster = clusterId,
               req_path = ''oapi/v1/namespaces/'' @ project @ ''/rolebindings/admin'',
               req_body = Some (JObject (AList.update ''userNames''
                 (JArray (us @ [JString (ToLower k username), JString (ToUpper k username)])) al))\<rparr>
       \<and> fst (last (snd (snd (changeProjectPermission p k clusterId project username io'))))
           = \<lparr>req_method = ''PUT'', req_cluster = clusterId,
               req_path = ''oapi/v1/namespaces/'' @ project @ ''/rolebindings/admin'',
               req_body = Some (JObject (AList.update ''userNames''
                 (JArray (us @ [JString (ToLower k username), JString (ToUpper k username),
                                JString (ToLower k username), JString (ToUpper k username)])) al))\<rparr>"
proof -
  let ?al1 = "AList.update ''userNames''
                (JArray (us @ [JString (ToLower k username), JString (ToUpper k username)])) al"
  note once = changeProjectPermission_put [OF first members, of username]
  with echo have binding: "binding = JObject ?al1" by simp
  have members1: "map_of ?al1 ''userNames''
                    = Some (JArray (us @ [JString (ToLower k username), JString (ToUpper k username)]))"
    by (simp add: update_conv')
  have "fst (last (snd (snd (changeProjectPermission p k clusterId project username io'))))
           = \<lparr>req_method = ''PUT'', req_cluster = clusterId,
               req_path = ''oapi/v1/namespaces/'' @ project @ ''/rolebindings/admin'',
               req_body = Some (JObject (AList.update ''userNames''
                 (JArray (us @ [JString (ToLower k username), JString (ToUpper k username),
                                JString (ToLower k username), JString (ToUpper k username)])) al))\<rparr>"
    using changeProjectPermission_put [OF second [unfolded binding] members1, of username]
    by simp
  with once show ?thesis by simp
qed

theorem changeProjectPermission_twice_witness:
  "fst (last (snd (snd (changeProjectPermission p0 k0 ''c1'' ''demo'' ''Bob''
         ([Some \<lparr>StatusCode = 200, Body = Some rolebinding1\<rparr>,
           Some \<lparr>StatusCode = 200, Body = None\<rparr>], [])))))
     = \<lparr>req_method = ''PUT'', req_cluster = ''c1'',
         req_path = ''oapi/v1/namespaces/demo/rolebindings/admin'',
         req_body = Some (JObject [(''kind'', JString ''RoleBinding''),
           (''userNames'', JArray [JString ''system:admin'', JString ''bob'', JString ''BOB'',
                                   JString ''bob'', JString ''BOB''])])\<rparr>"
proof -
  let ?al = "[(''kind'', JString ''RoleBinding''),
              (''userNames'', JArray [JString ''system:admin''])]"
  have first: "getAdminRoleBinding p0 k0 ''c1'' ''demo'' (script1, [])
                 = (Inr (JObject ?al),
                    (tl script1,
                     [(\<lparr>req_method = ''GET'', req_cluster = ''c1'',
                         req_path = ''oapi/v1/namespaces/demo/rolebindings/admin'',
                         req_body = None\<rparr>,
                       Some \<lparr>StatusCode = 200, Body = Some rolebinding0\<rparr>)]))"
    by (simp add: getAdminRoleBinding_def script1_def rolebinding0_def run_defs)
  have members: "map_of ?al ''userNames'' = Some (JArray [JString ''system:admin''])"
    by simp
  have second: "getAdminRoleBinding p0 k0 ''c1'' ''demo''
                  ([Some \<lparr>StatusCode = 200, Body = Some rolebinding1\<rparr>,
                    Some \<lparr>StatusCode = 200, Body = None\<rparr>], [])
                 = (Inr rolebinding1,
                    ([Some \<lparr>StatusCode = 200, Body = None\<rparr>],
                     [(\<lparr>req_method = ''GET'', req_cluster = ''c1'',
                         req_path = ''oapi/v1/namespaces/demo/rolebindings/admin'',
                         req_body = None\<rparr>,
                       Some \<lparr>StatusCode = 200, Body = Some rolebinding1\<rparr>)]))"
    by (simp add: getAdminRoleBinding_def run_defs)
  have echo: "req_body (fst (last (snd (snd (changeProjectPermission p0 k0 ''c1'' ''demo''
                 ''Bob'' (script1, []))))))
              = Some rolebinding1"
    by (simp add: changeProjectPermission_def getAdminRoleBinding_def ArrayAppend_def
        script1_def rolebinding0_def rolebinding1_def run_defs Let_def)
  from changeProjectPermission_twice [OF first members second echo]
  show ?thesis
    by (simp add: k0_def asciiToLower_def asciiToUpper_def toLowerChar_def toUpperChar_def)
qed

text \<open>
  C5. The grant is invoked by \<open>createNewProject\<close> alone, once the cluster has
  answered the creation request. Every such invocation succeeds or ends with the generic
  error; it ends with the generic error whenever one of its requests, the GET or the PUT
  of the role binding, got no answer (a transport error) or an answer whose status is
  not 200. So the caller receives nothing but the generic error: never an error of the
  transport or of the parser.
\<close>

theorem changeProjectPermission_errors:
  assumes called: "getOseHTTPClient p k ''POST'' clusterId ''oapi/v1/projectrequests'' body io0
                     = (Inr resp, io)"
  shows "(fst (changeProjectPermission p k clusterId project username io) = None
          \<or> fst (changeProjectPermission p k clusterId project username io)
               = Some (New (genericAPIError k)))
   \<and> (\<forall>rq answer.
        (rq, answer) \<in> set (drop (length (snd io))
                          (snd (snd (changeProjectPermission p k clusterId project username io))))
        \<and> (answer = None \<or> (\<exists>r. answer = Some r \<and> StatusCode r \<noteq> 200))
        \<longrightarrow> fst (changeProjectPermission p k clusterId project username io)
              = Some (New (genericAPIError k)))"
proof (intro conjI impI allI)
  have "clusterId \<in> set (clusters p)"
    using getOseHTTPClient_Inr [OF called] by simp
  then show "fst (changeProjectPermission p k clusterId project username io) = None
      \<or> fst (changeProjectPermission p k clusterId project username io)
           = Some (New (genericAPIError k))"
    by (auto simp: changeProjectPermission_def getAdminRoleBinding_def getOseHTTPClient_def
        Let_def split: prod.splits sum.splits option.splits if_splits)
next
  fix rq answer
  assume "(rq, answer) \<in> set (drop (length (snd io))
                          (snd (snd (changeProjectPermission p k clusterId project username io))))
        \<and> (answer = None \<or> (\<exists>r. answer = Some r \<and> StatusCode r \<noteq> 200))"
  then show "fst (changeProjectPermission p k clusterId project username io)
              = Some (New (genericAPIError k))"
    by (auto simp: changeProjectPermission_def getAdminRoleBinding_def getOseHTTPClient_def
        send_def Let_def split: prod.splits sum.splits option.splits if_splits)
qed

theorem changeProjectPermission_errors_witness:
  "fst (changeProjectPermission p0 k0 ''c1'' ''demo'' ''Bob''
          ([None], [(\<lparr>req_method = ''POST'', req_cluster = ''c1'',
                       req_path = ''oapi/v1/projectrequests'', req_body = None\<rparr>,
                     Some \<lparr>StatusCode = 201, Body = None\<rparr>)]))
     = Some (New (genericAPIError k0))
   \<and> fst (changeProjectPermission p0 k0 ''c1'' ''demo'' ''Bob''
            ([Some \<lparr>StatusCode = 200, Body = Some rolebinding0\<rparr>,
              Some \<lparr>StatusCode = 500, Body = None\<rparr>],
             [(\<lparr>req_method = ''POST'', req_cluster = ''c1'',
                 req_path = ''oapi/v1/projectrequests'', req_body = None\<rparr>,
               Some \<lparr>StatusCode = 201, Body = None\<rparr>)]))
       = Some (New (genericAPIError k0))
   \<and> fst (changeProjectPermission p0 k0 ''c1'' ''demo'' ''Bob''
            (script1, [(\<lparr>req_method = ''POST'', req_cluster = ''c1'',
                          req_path = ''oapi/v1/projectrequests'', req_body = None\<rparr>,
                        Some \<lparr>StatusCode = 201, Body = None\<rparr>)])) = None"
proof -
  let ?post = "(\<lparr>req_method = ''POST'', req_cluster = ''c1'',
                  req_path = ''oapi/v1/projectrequests'', req_body = None\<rparr>,
                Some \<lparr>StatusCode = 201, Body = None\<rparr>)"
  let ?refusing = "[Some \<lparr>StatusCode = 200, Body = Some rolebinding0\<rparr>,
                    Some \<lparr>StatusCode = 500, Body = None\<rparr>]"
  have called: "getOseHTTPClient p0 k0 ''POST'' ''c1'' ''oapi/v1/projectrequests'' None
                  (Some \<lparr>StatusCode = 201, Body = None\<rparr> # rest, [])
                = (Inr \<lparr>StatusCode = 201, Body = None\<rparr>, (rest, [?post]))" for rest
    by (simp add: getOseHTTPClient_def send_def scripted_def p0_def)
  have lost: "(\<lparr>req_method = ''GET'', req_cluster = ''c1'',
                 req_path = ''oapi/v1/namespaces/demo/rolebindings/admin'', req_body = None\<rparr>,
               None)
              \<in> set (drop (length (snd ([None :: response option], [?post])))
                   (snd (snd (changeProjectPermission p0 k0 ''c1'' ''demo'' ''Bob''
                               ([None], [?post])))))"
    by (simp add: changeProjectPermission_def getAdminRoleBinding_def run_defs)
  have refused: "(\<lparr>req_method = ''PUT'', req_cluster = ''c1'',
                    req_path = ''oapi/v1/namespaces/demo/rolebindings/admin'',
                    req_body = Some rolebinding1\<rparr>,
                  Some \<lparr>StatusCode = 500, Body = None\<rparr>)
              \<in> set (drop (length (snd (?refusing, [?post])))
                   (snd (snd (changeProjectPermission p0 k0 ''c1'' ''demo'' ''Bob''
                               (?refusing, [?post])))))"
    by (simp add: changeProjectPermission_def getAdminRoleBinding_def ArrayAppend_def
        rolebinding0_def rolebinding1_def run_defs Let_def)
  have bad: "Some \<lparr>StatusCode = 500, Body = None\<rparr> = None
             \<or> (\<exists>r. Some \<lparr>StatusCode = 500, Body = None\<rparr> = Some r
                   \<and> StatusCode r \<noteq> 200)"
    by simp
  have granted: "fst (changeProjectPermission p0 k0 ''c1'' ''demo'' ''Bob'' (script1, [?post]))
                   \<noteq> Some (New (genericAPIError k0))"
    by (simp add: changeProjectPermission_def getAdminRoleBinding_def ArrayAppend_def
        script1_def rolebinding0_def run_defs Let_def)
  note b = changeProjectPermission_errors [OF called [of "[None]"], of "''demo''" "''Bob''"]
  note c = changeProjectPermission_errors [OF called [of ?refusing], of "''demo''" "''Bob''"]
  note d = changeProjectPermission_errors [OF called [of script1], of "''demo''" "''Bob''"]
  have 2: "fst (changeProjectPermission p0 k0 ''c1'' ''demo'' ''Bob'' ([None], [?post]))
       = Some (New (genericAPIError k0))"
    using b [THEN conjunct2, THEN spec, THEN spec, THEN mp,
        OF conjI [OF lost disjI1 [OF refl]]] .
  have 3: "fst (changeProjectPermission p0 k0 ''c1'' ''demo'' ''Bob'' (?refusing, [?post]))
       = Some (New (genericAPIError k0))"
    using c [THEN conjunct2, THEN spec, THEN spec, THEN mp, OF conjI [OF refused bad]] .
  have 4: "fst (changeProjectPermission p0 k0 ''c1'' ''demo'' ''Bob'' (script1, [?post])) = None"
    using d [THEN conjunct1] granted by simp
  from 2 3 4 show ?thesis by simp
qed

subsection \<open>Test projects\<close>

lemma newTestProjectHandler_created:
  assumes "newTestProjectHandler p k creator (Some \<lparr>ClusterId = clusterId, Project = name\<rparr>) io
             = ([(200, msg)], io3)"
  shows "createNewProject p k clusterId (creator @ ''-'' @ name) creator ''keine-verrechnung'' []
           True io = (None, io3)"
  using assms
  by (auto simp: newTestProjectHandler_def validateNewProject_def Let_def
      split: option.splits prod.splits)

lemma Search_member:
  "Search (Search (JObject (AList.update ''metadata''
      (JObject (AList.update ''annotations'' (JObject ann) md)) root)) annotationsPath) [key]
   = (case map_of ann key of None \<Rightarrow> JNull | Some v \<Rightarrow> v)"
  by (simp add: update_conv' split: option.splits)

lemmas handler_defs = newTestProjectHandler_def validateNewProject_def script2_def namespace2_def

text \<open>
  C7, as the spec states it, has the billing, deletion-days and description annotations
  set for every request for a test project. When the cluster answers the GET of the
  namespace with a document whose \<open>metadata.annotations\<close> is \<open>null\<close>, the
  container that \<open>Path\<close> returns holds \<open>nil\<close> and shares nothing with the
  document: the handler answers 200, and the document it PUT is the one it fetched, with
  no annotation set.
\<close>

theorem newTestProjectHandler_null_counterexample:
  "newTestProjectHandler p0 k0 ''Alice'' (Some \<lparr>ClusterId = ''c1'', Project = ''Demo''\<rparr>)
     (script3, [])
   = ([(200, ApiResponse ''Das Test-Projekt Alice-Demo wurde erstellt auf Cluster c1'')],
      ([],
       [(\<lparr>req_method = ''POST'', req_cluster = ''c1'', req_path = ''oapi/v1/projectrequests'',
           req_body = Some (newObjectRequest ''ProjectRequest'' ''alice-demo'')\<rparr>,
         Some \<lparr>StatusCode = 201, Body = None\<rparr>),
        (\<lparr>req_method = ''GET'', req_cluster = ''c1'',
           req_path = ''oapi/v1/namespaces/alice-demo/rolebindings/admin'', req_body = None\<rparr>,
         Some \<lparr>StatusCode = 200, Body = Some rolebinding0\<rparr>),
        (\<lparr>req_method = ''PUT'', req_cluster = ''c1'',
           req_path = ''oapi/v1/namespaces/alice-demo/rolebindings/admin'',
           req_body = Some (JObject [(''kind'', JString ''RoleBinding''),
             (''userNames'', JArray [JString ''system:admin'', JString ''alice'',
                                     JString ''ALICE''])])\<rparr>,
         Some \<lparr>StatusCode = 200, Body = None\<rparr>),
        (\<lparr>req_method = ''GET'', req_cluster = ''c1'',
           req_path = ''api/v1/namespaces/alice-demo'', req_body = None\<rparr>,
         Some \<lparr>StatusCode = 200, Body = Some namespace3\<rparr>),
        (\<lparr>req_method = ''PUT'', req_cluster = ''c1'',
           req_path = ''api/v1/namespaces/alice-demo'', req_body = Some namespace3\<rparr>,
         Some \<lparr>StatusCode = 200, Body = None\<rparr>)]))
   \<and> Search (Search namespace3 annotationsPath) [''openshift.io/kontierung-element''] = JNull
   \<and> Search (Search namespace3 annotationsPath) [''openshift.io/testproject-daystodeletion'']
       = JNull
   \<and> Search (Search namespace3 annotationsPath) [''openshift.io/description''] = JNull"
  by (simp add: handler_defs eval_defs run_defs script3_def namespace3_def)

text \<open>
  C7 (amended). Take a request for a test project with name \<open>n\<close> by creator \<open>c\<close>
  that the handler answers with 200. The first exchange it put on the wire is the POST of
  a project request whose name is \<open>strings.ToLower\<close> of \<open>c-n\<close>, and the last two
  are the GET and the PUT of the namespace of that name. If the namespace that was
  fetched has an object at \<open>metadata.annotations\<close>, then in the document that was PUT
  the billing annotation is the fixed value \<open>keine-verrechnung\<close>, and the
  deletion-days and description annotations are set.
\<close>

theorem newTestProjectHandler_stores:
  assumes handled: "newTestProjectHandler p k creator
                      (Some \<lparr>ClusterId = clusterId, Project = name\<rparr>) io = ([(200, msg)], io3)"
    and wire: "snd io3 = snd io @ (rq0, a0) # mid @ [(rq1, Some r1), (rq2, a2)]"
    and fetched: "Body r1 = Some fetched"
    and object: "Search fetched annotationsPath = JObject ann"
    and written: "req_body rq2 = Some written"
  shows "rq0 = \<lparr>req_method = ''POST'', req_cluster = clusterId,
                 req_path = ''oapi/v1/projectrequests'',
                 req_body = Some (newObjectRequest ''ProjectRequest''
                                    (ToLower k (creator @ ''-'' @ name)))\<rparr>
       \<and> rq1 = \<lparr>req_method = ''GET'', req_cluster = clusterId,
                 req_path = ''api/v1/namespaces/'' @ ToLower k (creator @ ''-'' @ name),
                 req_body = None\<rparr>
       \<and> req_method rq2 = ''PUT'' \<and> req_cluster rq2 = clusterId
       \<and> req_path rq2 = ''api/v1/namespaces/'' @ ToLower k (creator @ ''-'' @ name)
       \<and> Search (Search written annotationsPath) [''openshift.io/kontierung-element'']
           = JString ''keine-verrechnung''
       \<and> Search (Search written annotationsPath) [''openshift.io/testproject-daystodeletion'']
           = JString (testProjectDeletionDays k)
       \<and> Search (Search written annotationsPath) [''openshift.io/description'']
           = JString (descriptionText (testProjectDeletionDays k))"
proof -
  let ?project = "ToLower k (creator @ ''-'' @ name)"
  note created = newTestProjectHandler_created [OF handled]
  obtain r0 rest where "snd io3 = snd io @ (\<lparr>req_method = ''POST'', req_cluster = clusterId,
            req_path = ''oapi/v1/projectrequests'',
            req_body = Some (newObjectRequest ''ProjectRequest'' ?project)\<rparr>, Some r0) # rest"
    using createNewProject_post [OF created] by blast
  with wire have post: "rq0 = \<lparr>req_method = ''POST'', req_cluster = clusterId,
                 req_path = ''oapi/v1/projectrequests'',
                 req_body = Some (newObjectRequest ''ProjectRequest'' ?project)\<rparr>"
    by simp
  have wire': "snd io3 = (snd io @ (rq0, a0) # mid) @ [(rq1, Some r1), (rq2, a2)]"
    using wire by simp
  obtain root md ann' where
    first: "rq1 = \<lparr>req_method = ''GET'', req_cluster = clusterId,
                   req_path = ''api/v1/namespaces/'' @ ?project, req_body = None\<rparr>"
    and second: "rq2 = \<lparr>req_method = ''PUT'', req_cluster = clusterId,
                   req_path = ''api/v1/namespaces/'' @ ?project,
                   req_body = Some (JObject (AList.update ''metadata''
                      (JObject (AList.update ''annotations'' (JObject ann') md)) root))\<rparr>"
    and b: "map_of ann' ''openshift.io/kontierung-element'' = Some (JString ''keine-verrechnung'')"
    and t: "map_of ann' ''openshift.io/testproject-daystodeletion''
                 = Some (JString (testProjectDeletionDays k))"
           "map_of ann' ''openshift.io/description''
                 = Some (JString (descriptionText (testProjectDeletionDays k)))"
    using createNewProject_written [OF created wire' fetched object] by auto
  from second written have doc: "written = JObject (AList.update ''metadata''
                      (JObject (AList.update ''annotations'' (JObject ann') md)) root)"
    by simp
  have "Search (Search written annotationsPath) [''openshift.io/kontierung-element'']
           = JString ''keine-verrechnung''"
    and "Search (Search written annotationsPath) [''openshift.io/testproject-daystodeletion'']
           = JString (testProjectDeletionDays k)"
    and "Search (Search written annotationsPath) [''openshift.io/description'']
           = JString (descriptionText (testProjectDeletionDays k))"
    unfolding doc Search_member by (simp_all add: b t)
  with post first second show ?thesis by simp
qed

theorem newTestProjectHandler_stores_witness:
  "fst (newTestProjectHandler p0 k0 ''Alice'' (Some \<lparr>ClusterId = ''c1'', Project = ''Demo''\<rparr>)
          (script2, []))
     = [(200, ApiResponse ''Das Test-Projekt Alice-Demo wurde erstellt auf Cluster c1'')]
   \<and> hd (snd (snd (newTestProjectHandler p0 k0 ''Alice''
                     (Some \<lparr>ClusterId = ''c1'', Project = ''Demo''\<rparr>) (script2, []))))
     = (\<lparr>req_method = ''POST'', req_cluster = ''c1'', req_path = ''oapi/v1/projectrequests'',
          req_body = Some (newObjectRequest ''ProjectRequest'' ''alice-demo'')\<rparr>,
        Some \<lparr>StatusCode = 201, Body = None\<rparr>)
   \<and> last (snd (snd (newTestProjectHandler p0 k0 ''Alice''
                     (Some \<lparr>ClusterId = ''c1'', Project = ''Demo''\<rparr>) (script2, []))))
     = (\<lparr>req_method = ''PUT'', req_cluster = ''c1'', req_path = ''api/v1/namespaces/alice-demo'',
          req_body = Some (JObject
            [(''kind'', JString ''Namespace''),
             (''metadata'', JObject
                [(''name'', JString ''alice-demo''),
                 (''annotations'', JObject
                    [(''openshift.io/requester'', JString ''Alice''),
                     (''openshift.io/kontierung-element'', JString ''keine-verrechnung''),
                     (''openshift.io/testproject-daystodeletion'', JString ''30''),
                     (''openshift.io/description'', JString (descriptionText ''30''))])])])\<rparr>,
        Some \<lparr>StatusCode = 200, Body = None\<rparr>)
   \<and> Search (Search (JObject
            [(''kind'', JString ''Namespace''),
             (''metadata'', JObject
                [(''name'', JString ''alice-demo''),
                 (''annotations'', JObject
                    [(''openshift.io/requester'', JString ''Alice''),
                     (''openshift.io/kontierung-element'', JString ''keine-verrechnung''),
                     (''openshift.io/testproject-daystodeletion'', JString ''30''),
                     (''openshift.io/description'', JString (descriptionText ''30''))])])])
          annotationsPath) [''openshift.io/testproject-daystodeletion'']
     = JString (testProjectDeletionDays k0)"
proof -
  let ?run = "newTestProjectHandler p0 k0 ''Alice''
                (Some \<lparr>ClusterId = ''c1'', Project = ''Demo''\<rparr>) (script2, [])"
  let ?written = "JObject
            [(''kind'', JString ''Namespace''),
             (''metadata'', JObject
                [(''name'', JString ''alice-demo''),
                 (''annotations'', JObject
                    [(''openshift.io/requester'', JString ''Alice''),
                     (''openshift.io/kontierung-element'', JString ''keine-verrechnung''),
                     (''openshift.io/testproject-daystodeletion'', JString ''30''),
                     (''openshift.io/description'', JString (descriptionText ''30''))])])]"
  let ?answer = "[(200, ApiResponse ''Das Test-Projekt Alice-Demo wurde erstellt auf Cluster c1'')]"
  let ?post = "(\<lparr>req_method = ''POST'', req_cluster = ''c1'', req_path = ''oapi/v1/projectrequests'',
                 req_body = Some (newObjectRequest ''ProjectRequest'' ''alice-demo'')\<rparr>,
                Some \<lparr>StatusCode = 201, Body = None\<rparr>)"
  let ?mid = "[(\<lparr>req_method = ''GET'', req_cluster = ''c1'',
                  req_path = ''oapi/v1/namespaces/alice-demo/rolebindings/admin'',
                  req_body = None\<rparr>,
                Some \<lparr>StatusCode = 200, Body = Some rolebinding0\<rparr>),
               (\<lparr>req_method = ''PUT'', req_cluster = ''c1'',
                  req_path = ''oapi/v1/namespaces/alice-demo/rolebindings/admin'',
                  req_body = Some (JObject [(''kind'', JString ''RoleBinding''),
                    (''userNames'', JArray [JString ''system:admin'', JString ''alice'',
                                            JString ''ALICE''])])\<rparr>,
                Some \<lparr>StatusCode = 200, Body = None\<rparr>)]"
  let ?get = "\<lparr>req_method = ''GET'', req_cluster = ''c1'',
                req_path = ''api/v1/namespaces/alice-demo'', req_body = None\<rparr>"
  let ?put = "\<lparr>req_method = ''PUT'', req_cluster = ''c1'',
                req_path = ''api/v1/namespaces/alice-demo'', req_body = Some ?written\<rparr>"
  have run: "?run = (?answer, ([], ?post # ?mid
               @ [(?get, Some \<lparr>StatusCode = 200, Body = Some namespace2\<rparr>),
                  (?put, Some \<lparr>StatusCode = 200, Body = None\<rparr>)]))"
    by (simp add: handler_defs eval_defs run_defs)
  have wire: "snd ([] :: response option list, ?post # ?mid
               @ [(?get, Some \<lparr>StatusCode = 200, Body = Some namespace2\<rparr>),
                  (?put, Some \<lparr>StatusCode = 200, Body = None\<rparr>)])
              = snd (script2, [] :: exchange list) @ ?post # ?mid
               @ [(?get, Some \<lparr>StatusCode = 200, Body = Some namespace2\<rparr>),
                  (?put, Some \<lparr>StatusCode = 200, Body = None\<rparr>)]"
    by simp
  have fetched: "Body \<lparr>StatusCode = 200, Body = Some namespace2\<rparr> = Some namespace2"
    by simp
  have object: "Search namespace2 annotationsPath
                  = JObject [(''openshift.io/requester'', JString ''alice'')]"
    by (simp add: namespace2_def)
  have written: "req_body ?put = Some ?written"
    by simp
  note stores = newTestProjectHandler_stores [OF run wire fetched object written]
  show ?thesis
  proof (intro conjI)
    show "fst ?run = ?answer"
      unfolding run by simp
    show "hd (snd (snd ?run)) = ?post"
      unfolding run by simp
    show "last (snd (snd ?run)) = (?put, Some \<lparr>StatusCode = 200, Body = None\<rparr>)"
      unfolding run by simp
    show "Search (Search ?written annotationsPath) [''openshift.io/testproject-daystodeletion'']
            = JString (testProjectDeletionDays k0)"
      by (rule stores [THEN conjunct2, THEN conjunct2, THEN conjunct2, THEN conjunct2,
            THEN conjunct2, THEN conjunct2, THEN conjunct1])
  qed
qed

subsection \<open>Listing projects\<close>

lemma projectNames_names:
  "map (\<lambda>item. Search item [''metadata'', ''name'']) items = map JString names
     \<Longrightarrow> projectNames items found = Inr (found @ names)"
proof (induction items arbitrary: found names)
  case Nil
  then show ?case by simp
next
  case (Cons item items)
  then obtain n ns where names: "names = n # ns"
    and item: "Search item [''metadata'', ''name''] = JString n"
    and rest: "map (\<lambda>item. Search item [''metadata'', ''name'']) items = map JString ns"
    by (cases names) auto
  from Cons.IH [OF rest, of "found @ [n]"] item names show ?case by simp
qed

text \<open>
  C9. The list of projects does not depend on the username: for two usernames, the same
  cluster and the same state of the world, \<open>getUserProjects\<close> returns the same
  result and leaves the same state. When the cluster answers with a document whose
  \<open>items\<close> is a list of items that each have a string at \<open>metadata.name\<close>, the
  result is the list of these names, one for every item, in order: nothing is filtered.
\<close>

theorem getUserProjects_unfiltered:
  "getUserProjects p k clusterid user io = getUserProjects p k clusterid other io
   \<and> (getOseHTTPClient p k ''GET'' clusterid ''oapi/v1/projects'' None io = (Inr resp, io1)
        \<and> Body resp = Some doc \<and> Search doc [''items''] = JArray items
        \<and> map (\<lambda>item. Search item [''metadata'', ''name'']) items = map JString names
      \<longrightarrow> getUserProjects p k clusterid user io = (Inr names, io1))"
  by (auto simp: getUserProjects_def projectNames_names)

theorem getUserProjects_unfiltered_witness:
  "getUserProjects p0 k0 ''c1'' ''bob'' ([Some \<lparr>StatusCode = 200, Body = Some projects0\<rparr>], [])
     = getUserProjects p0 k0 ''c1'' ''alice'' ([Some \<lparr>StatusCode = 200, Body = Some projects0\<rparr>], [])
   \<and> getUserProjects p0 k0 ''c1'' ''bob'' ([Some \<lparr>StatusCode = 200, Body = Some projects0\<rparr>], [])
     = (Inr [''demo'', ''alice-demo''],
        ([], [(\<lparr>req_method = ''GET'', req_cluster = ''c1'', req_path = ''oapi/v1/projects'',
                 req_body = None\<rparr>, Some \<lparr>StatusCode = 200, Body = Some projects0\<rparr>)]))"
proof -
  let ?items = "[JObject [(''metadata'', JObject [(''name'', JString ''demo'')])],
                 JObject [(''metadata'', JObject [(''name'', JString ''alice-demo'')])]]"
  have get: "getOseHTTPClient p0 k0 ''GET'' ''c1'' ''oapi/v1/projects'' None
               ([Some \<lparr>StatusCode = 200, Body = Some projects0\<rparr>], [])
             = (Inr \<lparr>StatusCode = 200, Body = Some projects0\<rparr>,
                ([], [(\<lparr>req_method = ''GET'', req_cluster = ''c1'', req_path = ''oapi/v1/projects'',
                 req_body = None\<rparr>, Some \<lparr>StatusCode = 200, Body = Some projects0\<rparr>)]))"
    by (simp add: getOseHTTPClient_def send_def scripted_def p0_def)
  have body: "Body \<lparr>StatusCode = 200, Body = Some projects0\<rparr> = Some projects0"
    by simp
  have items: "Search projects0 [''items''] = JArray ?items"
    by (simp add: projects0_def)
  have names: "map (\<lambda>item. Search item [''metadata'', ''name'']) ?items
                 = map JString [''demo'', ''alice-demo'']"
    by simp
  note inst = getUserProjects_unfiltered [where p = p0 and k = k0 and clusterid = "''c1''"
      and user = "''bob''" and other = "''alice''"
      and io = "([Some \<lparr>StatusCode = 200, Body = Some projects0\<rparr>], [])"
      and resp = "\<lparr>StatusCode = 200, Body = Some projects0\<rparr>"
      and doc = projects0 and items = ?items and names = "[''demo'', ''alice-demo'']"]
  show ?thesis
  proof (intro conjI)
    show "getUserProjects p0 k0 ''c1'' ''bob'' ([Some \<lparr>StatusCode = 200, Body = Some projects0\<rparr>], [])
     = getUserProjects p0 k0 ''c1'' ''alice'' ([Some \<lparr>StatusCode = 200, Body = Some projects0\<rparr>], [])"
      by (rule inst [THEN conjunct1])
    show "getUserProjects p0 k0 ''c1'' ''bob'' ([Some \<lparr>StatusCode = 200, Body = Some projects0\<rparr>], [])
     = (Inr [''demo'', ''alice-demo''],
        ([], [(\<lparr>req_method = ''GET'', req_cluster = ''c1'', req_path = ''oapi/v1/projects'',
                 req_body = None\<rparr>, Some \<lparr>StatusCode = 200, Body = Some projects0\<rparr>)]))"
      by (rule inst [THEN conjunct2, THEN mp, OF conjI [OF get conjI [OF body conjI [OF items names]]]])
  qed
qed

subsection \<open>The handler of project information\<close>

text \<open>
  C10. When the access validation succeeds and \<open>getProjectInformation\<close> returns an
  error, the handler writes the 400 answer with the message of the error and then, the
  error branch not returning, a 200 answer whose payload is the nil
  \<open>ProjectInformation\<close>.
\<close>

theorem getProjectInformationHandler_falls_through:
  assumes access: "validateAdminAccess p clusterId username project io = (None, io1)"
    and failed: "getProjectInformation p k clusterId project io1 = (Inl (Err err), io2)"
  shows "getProjectInformationHandler p k username clusterId project io
           = (Some [(400, ApiResponse (Error err)), (200, Information None)], io2)"
  using access failed by (simp add: getProjectInformationHandler_def)

theorem getProjectInformationHandler_falls_through_witness:
  "getProjectInformationHandler p0 k0 ''bob'' ''c1'' ''demo'' ([None], [])
     = (Some [(400, ApiResponse ''generic API error''), (200, Information None)],
        ([], [(\<lparr>req_method = ''GET'', req_cluster = ''c1'', req_path = ''api/v1/namespaces/demo'',
                 req_body = None\<rparr>, None)]))"
proof -
  have access: "validateAdminAccess p0 ''c1'' ''bob'' ''demo'' ([None], []) = (None, ([None], []))"
    by (simp add: validateAdminAccess_def p0_def)
  have failed: "getProjectInformation p0 k0 ''c1'' ''demo'' ([None], [])
                  = (Inl (Err (New ''generic API error'')),
                     ([], [(\<lparr>req_method = ''GET'', req_cluster = ''c1'',
                              req_path = ''api/v1/namespaces/demo'', req_body = None\<rparr>, None)]))"
    by (simp add: getProjectInformation_def getOseHTTPClient_def send_def scripted_def p0_def k0_def)
  from getProjectInformationHandler_falls_through [OF access failed]
  show ?thesis by simp
qed

end
